theory Spec2Isabelle
  imports Complex_Main "HOL-Library.Multiset" "HOL-Library.AList"
    "HOL-Library.Char_ord" "HOL-Library.List_Lexorder" "HOL-Library.Product_Lexorder"
begin

section \<open>Billing core: schema, aggregation views and reporting client\<close>

text \<open>
  The repository is a PostgreSQL schema (tables, constraints, three views) and a React
  client that reads the tables through supabase-js and re-aggregates the rows. The
  embedding below keeps the columns the views and the client read; the other columns
  (gateway ids, currency, description, metadata, ...) take no part in any computation
  and are left out of the records.

  Conventions.
  \<^item> A nullable column is an \<open>option\<close>; \<open>None\<close> is SQL NULL (JavaScript \<open>null\<close>).
  \<^item> A \<open>TIMESTAMPTZ\<close> and a JavaScript \<open>Date\<close> are an instant: an \<open>int\<close>, the
    milliseconds since the epoch.
  \<^item> What depends on the time zone or the locale of the session or of the viewer
    (\<open>DATE_TRUNC('month', _)::DATE\<close>, \<open>toLocaleDateString\<close>, \<open>setDate\<close>) is a parameter
    of the definitions. The instance for UTC and the en-US locale is given for the
    examples.
  \<^item> Record fields carry a prefix for their table (\<open>t_amount\<close> is
    \<open>transactions.amount\<close>), since field names are global.
\<close>

subsection \<open>Tables\<close>

type_synonym uuid = string
type_synonym instant = int
type_synonym sql_date = "int \<times> int \<times> int"

record project =
  p_id :: uuid
  p_name :: string

record customer =
  c_id :: uuid
  c_project_id :: uuid
  c_name :: "string option"
  c_email :: "string option"

record transaction =
  t_id :: uuid
  t_project_id :: uuid
  t_customer_id :: "uuid option"
  t_external_id :: string
  t_type :: string
  t_status :: string
  t_amount :: int
  t_fee_amount :: "int option"
  t_net_amount :: "int option"
  t_created_at :: "instant option"

record subscription =
  s_id :: uuid
  s_project_id :: uuid
  s_customer_id :: uuid
  s_amount :: int
  s_status :: string
  s_cancel_at_period_end :: "bool option"
  s_created_at :: "instant option"

record database =
  projects :: "project list"
  customers :: "customer list"
  transactions :: "transaction list"
  subscriptions :: "subscription list"

subsection \<open>The platform: calendar dates in UTC\<close>

text \<open>
  The proleptic Gregorian date (year, month, day) of a day number counted from
  1970-01-01, by the usual era/day-of-era computation.
\<close>

definition civil_from_days :: "int \<Rightarrow> sql_date" where
  "civil_from_days z0 =
     (let z = z0 + 719468;
          era = z div 146097;
          doe = z mod 146097;
          yoe = (doe - doe div 1460 + doe div 36524 - doe div 146096) div 365;
          doy = doe - (365 * yoe + yoe div 4 - yoe div 100);
          mp = (5 * doy + 2) div 153;
          d = doy - (153 * mp + 2) div 5 + 1;
          m = (if mp < 10 then mp + 3 else mp - 9);
          y = yoe + era * 400 + (if m \<le> 2 then 1 else 0)
      in (y, m, d))"

definition ms_per_day :: int where
  "ms_per_day = 86400000"

definition utc_date :: "instant \<Rightarrow> sql_date" where
  "utc_date t = civil_from_days (t div ms_per_day)"

text \<open>\<open>DATE_TRUNC('month', ts)::DATE\<close> in a session whose TimeZone is UTC.\<close>

definition date_trunc_month_utc :: "instant \<Rightarrow> sql_date" where
  "date_trunc_month_utc t = (case utc_date t of (y, m, d) \<Rightarrow> (y, m, 1))"

text \<open>The decimal digits of a non-negative integer.\<close>

definition digit :: "int \<Rightarrow> char" where
  "digit d =
     (if d = 0 then CHR ''0'' else if d = 1 then CHR ''1'' else if d = 2 then CHR ''2''
      else if d = 3 then CHR ''3'' else if d = 4 then CHR ''4'' else if d = 5 then CHR ''5''
      else if d = 6 then CHR ''6'' else if d = 7 then CHR ''7'' else if d = 8 then CHR ''8''
      else CHR ''9'')"

function decimal :: "int \<Rightarrow> string" where
  "decimal n = (if n < 10 then [digit n] else decimal (n div 10) @ [digit (n mod 10)])"
  by pat_completeness auto
termination
  by (relation "measure nat") auto

text \<open>\<open>Date.prototype.toLocaleDateString()\<close> for the en-US locale in UTC: \<open>M/D/YYYY\<close>.\<close>

definition toLocaleDateString_en_US_utc :: "instant \<Rightarrow> string" where
  "toLocaleDateString_en_US_utc t =
     (case utc_date t of (y, m, d) \<Rightarrow> decimal m @ ''/'' @ decimal d @ ''/'' @ decimal y)"

subsection \<open>SQL aggregates\<close>

text \<open>
  \<open>SUM\<close> skips NULL inputs and is NULL when no non-NULL input is left.
  \<open>SUM(integer)\<close> is a \<open>bigint\<close>; the sum is taken in \<open>int\<close>, which a \<open>bigint\<close>
  holds for fewer than \<open>2^32\<close> rows of \<open>INTEGER\<close> values.
\<close>

definition sql_sum :: "int option list \<Rightarrow> int option" where
  "sql_sum vs =
     (let ws = List.map_filter (\<lambda>v. v) vs
      in if ws = [] then None else Some (sum_list ws))"

text \<open>\<open>COUNT(DISTINCT e)\<close>: the number of distinct non-NULL values of \<open>e\<close>.\<close>

definition sql_count_distinct :: "'a option list \<Rightarrow> nat" where
  "sql_count_distinct vs = length (remdups (List.map_filter (\<lambda>v. v) vs))"

text \<open>\<open>COUNT(e)\<close>: the number of non-NULL values of \<open>e\<close>.\<close>

definition sql_count :: "'a option list \<Rightarrow> nat" where
  "sql_count vs = length (List.map_filter (\<lambda>v. v) vs)"

text \<open>Integer subtraction: NULL when an operand is NULL.\<close>

definition sql_minus :: "int option \<Rightarrow> int option \<Rightarrow> int option" where
  "sql_minus a b =
     (case a of None \<Rightarrow> None
      | Some x \<Rightarrow> (case b of None \<Rightarrow> None | Some y \<Rightarrow> Some (x - y)))"

text \<open>
  \<open>GROUP BY\<close>: one group per distinct key (NULL keys are equal to each other), holding
  the rows with that key in their order.
\<close>

definition group_by :: "('a \<Rightarrow> 'k) \<Rightarrow> 'a list \<Rightarrow> ('k \<times> 'a list) list" where
  "group_by key xs =
     map (\<lambda>k. (k, filter (\<lambda>x. key x = k) xs)) (remdups (map key xs))"

text \<open>
  \<open>ORDER BY\<close>: an insertion sort by the relation "\<open>x\<close> is not after \<open>y\<close>". The order
  of rows that compare equal is not fixed by SQL; the model keeps their input order.
\<close>

fun insort_by :: "('a \<Rightarrow> 'a \<Rightarrow> bool) \<Rightarrow> 'a \<Rightarrow> 'a list \<Rightarrow> 'a list" where
  "insort_by le x [] = [x]"
| "insort_by le x (y # ys) = (if le x y then x # y # ys else y # insort_by le x ys)"

definition order_by :: "('a \<Rightarrow> 'a \<Rightarrow> bool) \<Rightarrow> 'a list \<Rightarrow> 'a list" where
  "order_by le xs = foldr (insort_by le) xs []"

text \<open>Ascending (NULLS LAST) and descending (NULLS FIRST), the defaults of PostgreSQL.\<close>

definition asc_nulls_last :: "('a::linorder) option \<Rightarrow> 'a option \<Rightarrow> bool" where
  "asc_nulls_last a b =
     (case b of None \<Rightarrow> True
      | Some y \<Rightarrow> (case a of None \<Rightarrow> False | Some x \<Rightarrow> x \<le> y))"

definition desc_nulls_first :: "('a::linorder) option \<Rightarrow> 'a option \<Rightarrow> bool" where
  "desc_nulls_first a b =
     (case a of None \<Rightarrow> True
      | Some x \<Rightarrow> (case b of None \<Rightarrow> False | Some y \<Rightarrow> y \<le> x))"

subsection \<open>The transactions table: constraints and the generated column\<close>

text \<open>
  The columns of \<open>transactions\<close> that bear an amount:
  \<^verbatim>\<open>
  amount INTEGER NOT NULL,
  fee_amount INTEGER DEFAULT 0,
  net_amount INTEGER GENERATED ALWAYS AS (amount - fee_amount) STORED,
  UNIQUE(project_id, external_id),
  CONSTRAINT amount_check CHECK (amount >= 0),
  CONSTRAINT fee_check CHECK (fee_amount >= 0)
  \<close>
  A write gives each of them \<open>DEFAULT\<close> (or leaves it out), \<open>NULL\<close> or a value.
  \<open>INTEGER\<close> is a signed 32-bit integer; PostgreSQL does not wrap around, it fails
  with "integer out of range". A \<open>CHECK\<close> fails only when its condition is false, so
  it passes on NULL. The foreign keys are not part of the model.
\<close>

datatype sql_error =
  not_null_violation
  | check_violation
  | numeric_value_out_of_range
  | generated_always
  | unique_violation

datatype 'a supplied = Default | Null | Val 'a

definition integer_range :: "int \<Rightarrow> bool" where
  "integer_range v = (- (2 ^ 31) \<le> v \<and> v < 2 ^ 31)"

text \<open>The value a column of type INTEGER takes from what the write supplies.\<close>

definition integer_column :: "int option \<Rightarrow> int supplied \<Rightarrow> sql_error + int option" where
  "integer_column dflt s =
     (case s of
        Default \<Rightarrow> Inr dflt
      | Null \<Rightarrow> Inr None
      | Val v \<Rightarrow> if integer_range v then Inr (Some v) else Inl numeric_value_out_of_range)"

text \<open>The generation expression \<open>(amount - fee_amount)\<close>, in INTEGER arithmetic.\<close>

definition net_amount_expr :: "int option \<Rightarrow> int option \<Rightarrow> sql_error + int option" where
  "net_amount_expr amount fee_amount =
     (case sql_minus amount fee_amount of
        None \<Rightarrow> Inr None
      | Some n \<Rightarrow> if integer_range n then Inr (Some n) else Inl numeric_value_out_of_range)"

text \<open>
  The row a write stores: \<open>others\<close> holds the columns that bear no amount. The
  generated column accepts nothing but \<open>DEFAULT\<close>; it is computed before the
  NOT NULL and CHECK constraints are tested.
\<close>

definition transactions_row ::
  "transaction \<Rightarrow> int supplied \<Rightarrow> int supplied \<Rightarrow> int supplied \<Rightarrow> sql_error + transaction" where
  "transactions_row others amount fee_amount net_amount =
     (if net_amount \<noteq> Default then Inl generated_always
      else case integer_column None amount of
        Inl e \<Rightarrow> Inl e
      | Inr a \<Rightarrow>
          (case integer_column (Some 0) fee_amount of
             Inl e \<Rightarrow> Inl e
           | Inr f \<Rightarrow>
               (case net_amount_expr a f of
                  Inl e \<Rightarrow> Inl e
                | Inr n \<Rightarrow>
                    (case a of
                       None \<Rightarrow> Inl not_null_violation
                     | Some av \<Rightarrow>
                         if \<not> av \<ge> 0 then Inl check_violation
                         else if (case f of None \<Rightarrow> False | Some fv \<Rightarrow> \<not> fv \<ge> 0)
                           then Inl check_violation
                         else Inr (others\<lparr>t_amount := av, t_fee_amount := f,
                                          t_net_amount := n\<rparr>)))))"

text \<open>
  The statements that produce rows. \<open>INSERT\<close> supplies the three columns; \<open>UPDATE\<close>
  names the row by its id and, for each of the three columns, either leaves it out
  of its SET list (\<open>None\<close>) or assigns it. A column that is left out keeps its value;
  the generated column is computed again. An \<open>UPDATE\<close> that assigns anything but
  \<open>DEFAULT\<close> to the generated column, or a constant outside the range of INTEGER to
  one of the other two, is refused as a statement, whether or not a row has the id.
\<close>

datatype transactions_write =
  Insert transaction "int supplied" "int supplied" "int supplied"
  | Update uuid "int supplied option" "int supplied option" "int supplied option"
  | Delete uuid

definition kept :: "int option \<Rightarrow> int supplied" where
  "kept v = (case v of None \<Rightarrow> Null | Some x \<Rightarrow> Val x)"

definition update_row ::
  "int supplied option \<Rightarrow> int supplied option \<Rightarrow> int supplied option \<Rightarrow> transaction
     \<Rightarrow> sql_error + transaction" where
  "update_row amount fee_amount net_amount old =
     transactions_row old
       (case amount of None \<Rightarrow> kept (Some (t_amount old)) | Some s \<Rightarrow> s)
       (case fee_amount of None \<Rightarrow> kept (t_fee_amount old) | Some s \<Rightarrow> s)
       (case net_amount of None \<Rightarrow> Default | Some s \<Rightarrow> s)"

fun update_rows ::
  "(transaction \<Rightarrow> sql_error + transaction) \<Rightarrow> uuid \<Rightarrow> transaction list
     \<Rightarrow> sql_error + transaction list" where
  "update_rows f i [] = Inr []"
| "update_rows f i (r # rs) =
     (if t_id r = i
      then (case f r of
              Inl e \<Rightarrow> Inl e
            | Inr r' \<Rightarrow> (case update_rows f i rs of Inl e \<Rightarrow> Inl e | Inr rs' \<Rightarrow> Inr (r' # rs')))
      else (case update_rows f i rs of Inl e \<Rightarrow> Inl e | Inr rs' \<Rightarrow> Inr (r # rs')))"

definition assigned_out_of_range :: "int supplied option \<Rightarrow> bool" where
  "assigned_out_of_range a =
     (case a of Some (Val v) \<Rightarrow> \<not> integer_range v | _ \<Rightarrow> False)"

definition update_refused ::
  "int supplied option \<Rightarrow> int supplied option \<Rightarrow> int supplied option \<Rightarrow> sql_error option" where
  "update_refused amount fee_amount net_amount =
     (if (case net_amount of None \<Rightarrow> False | Some s \<Rightarrow> s \<noteq> Default)
      then Some generated_always
      else if assigned_out_of_range amount \<or> assigned_out_of_range fee_amount
      then Some numeric_value_out_of_range
      else None)"

fun execute :: "transaction list \<Rightarrow> transactions_write \<Rightarrow> sql_error + transaction list" where
  "execute table (Insert others amount fee_amount net_amount) =
     (case transactions_row others amount fee_amount net_amount of
        Inl e \<Rightarrow> Inl e
      | Inr r \<Rightarrow>
          if list_ex (\<lambda>r'. t_id r' = t_id r
                \<or> (t_project_id r' = t_project_id r \<and> t_external_id r' = t_external_id r)) table
          then Inl unique_violation
          else Inr (table @ [r]))"
| "execute table (Update i amount fee_amount net_amount) =
     (case update_refused amount fee_amount net_amount of
        Some e \<Rightarrow> Inl e
      | None \<Rightarrow> update_rows (update_row amount fee_amount net_amount) i table)"
| "execute table (Delete i) = Inr (filter (\<lambda>r. t_id r \<noteq> i) table)"

fun execute_all :: "transaction list \<Rightarrow> transactions_write list \<Rightarrow> sql_error + transaction list" where
  "execute_all table [] = Inr table"
| "execute_all table (w # ws) =
     (case execute table w of Inl e \<Rightarrow> Inl e | Inr table' \<Rightarrow> execute_all table' ws)"

text \<open>The equation of the claim, in the arithmetic of SQL (NULL when the fee is NULL).\<close>

definition net_amount_consistent :: "transaction \<Rightarrow> bool" where
  "net_amount_consistent r =
     (0 \<le> t_amount r
      \<and> (case t_fee_amount r of
           None \<Rightarrow> t_net_amount r = None
         | Some f \<Rightarrow> 0 \<le> f \<and> t_net_amount r = Some (t_amount r - f)))"

subsection \<open>The views\<close>

text \<open>
  \<^verbatim>\<open>
  CREATE OR REPLACE VIEW monthly_revenue_by_project AS
  SELECT
      DATE_TRUNC('month', t.created_at)::DATE as month,
      p.id as project_id,
      p.name as project_name,
      SUM(CASE WHEN t.status = 'succeeded' THEN t.amount ELSE 0 END) as total_revenue,
      SUM(CASE WHEN t.status = 'succeeded' THEN t.fee_amount ELSE 0 END) as total_fees,
      SUM(CASE WHEN t.status = 'succeeded' THEN (t.amount - t.fee_amount) ELSE 0 END) as net_revenue,
      COUNT(DISTINCT CASE WHEN t.status = 'succeeded' AND t.type = 'payment' THEN t.customer_id END) as paying_customers
  FROM transactions t
  JOIN projects p ON t.project_id = p.id
  GROUP BY month, p.id, p.name
  ORDER BY month DESC, p.name;
  \<close>
  Strings are compared by their character codes (the C collation).
\<close>

record monthly_revenue_row =
  month :: "sql_date option"
  mr_project_id :: uuid
  mr_project_name :: string
  total_revenue :: "int option"
  total_fees :: "int option"
  net_revenue :: "int option"
  paying_customers :: nat

definition transactions_join_projects :: "database \<Rightarrow> (transaction \<times> project) list" where
  "transactions_join_projects db =
     [(t, p). t \<leftarrow> transactions db, p \<leftarrow> projects db, t_project_id t = p_id p]"

definition monthly_key ::
  "(instant \<Rightarrow> sql_date) \<Rightarrow> transaction \<times> project \<Rightarrow> sql_date option \<times> uuid \<times> string" where
  "monthly_key date_trunc_month tp =
     (map_option date_trunc_month (t_created_at (fst tp)), p_id (snd tp), p_name (snd tp))"

definition monthly_row ::
  "(sql_date option \<times> uuid \<times> string) \<times> (transaction \<times> project) list \<Rightarrow> monthly_revenue_row" where
  "monthly_row kg =
     (let ts = map fst (snd kg) in
      \<lparr>month = fst (fst kg),
       mr_project_id = fst (snd (fst kg)),
       mr_project_name = snd (snd (fst kg)),
       total_revenue =
         sql_sum (map (\<lambda>t. if t_status t = ''succeeded'' then Some (t_amount t) else Some 0) ts),
       total_fees =
         sql_sum (map (\<lambda>t. if t_status t = ''succeeded'' then t_fee_amount t else Some 0) ts),
       net_revenue =
         sql_sum (map (\<lambda>t. if t_status t = ''succeeded''
                            then sql_minus (Some (t_amount t)) (t_fee_amount t) else Some 0) ts),
       paying_customers =
         sql_count_distinct
           (map (\<lambda>t. if t_status t = ''succeeded'' \<and> t_type t = ''payment''
                      then t_customer_id t else None) ts)\<rparr>)"

definition monthly_order :: "monthly_revenue_row \<Rightarrow> monthly_revenue_row \<Rightarrow> bool" where
  "monthly_order a b =
     (if month a = month b then mr_project_name a \<le> mr_project_name b
      else desc_nulls_first (month a) (month b))"

definition monthly_revenue_by_project ::
  "(instant \<Rightarrow> sql_date) \<Rightarrow> database \<Rightarrow> monthly_revenue_row list" where
  "monthly_revenue_by_project date_trunc_month db =
     order_by monthly_order
       (map monthly_row
          (group_by (monthly_key date_trunc_month) (transactions_join_projects db)))"

text \<open>
  \<^verbatim>\<open>
  CREATE OR REPLACE VIEW active_subscriptions_by_project AS
  SELECT
      p.id as project_id,
      p.name as project_name,
      COUNT(*) as total_active,
      SUM(s.amount) as mrr,
      COUNT(CASE WHEN s.cancel_at_period_end THEN 1 END) as scheduled_cancellations
  FROM subscriptions s
  JOIN projects p ON s.project_id = p.id
  WHERE s.status = 'active'
  GROUP BY p.id, p.name;
  \<close>
  The view has no ORDER BY: the groups come in the order of their first row.
\<close>

record active_subscriptions_row =
  as_project_id :: uuid
  as_project_name :: string
  total_active :: nat
  as_mrr :: "int option"
  scheduled_cancellations :: nat

definition subscriptions_join_projects :: "database \<Rightarrow> (subscription \<times> project) list" where
  "subscriptions_join_projects db =
     [(s, p). s \<leftarrow> subscriptions db, p \<leftarrow> projects db, s_project_id s = p_id p]"

definition active_key :: "subscription \<times> project \<Rightarrow> uuid \<times> string" where
  "active_key sp = (p_id (snd sp), p_name (snd sp))"

definition active_row ::
  "(uuid \<times> string) \<times> (subscription \<times> project) list \<Rightarrow> active_subscriptions_row" where
  "active_row kg =
     (let ss = map fst (snd kg) in
      \<lparr>as_project_id = fst (fst kg),
       as_project_name = snd (fst kg),
       total_active = length ss,
       as_mrr = sql_sum (map (\<lambda>s. Some (s_amount s)) ss),
       scheduled_cancellations =
         sql_count (map (\<lambda>s. if s_cancel_at_period_end s = Some True then Some (1::int) else None) ss)\<rparr>)"

definition active_subscriptions_by_project :: "database \<Rightarrow> active_subscriptions_row list" where
  "active_subscriptions_by_project db =
     map active_row
       (group_by active_key
          (filter (\<lambda>sp. s_status (fst sp) = ''active'') (subscriptions_join_projects db)))"

subsection \<open>The read API\<close>

text \<open>
  What the data-access layer answers when a query succeeds: the rows of a table that
  pass the \<open>eq\<close> and \<open>gte\<close> filters, in the requested order. A comparison with NULL
  is not true, so \<open>gte\<close> drops the rows whose \<open>created_at\<close> is NULL. The queries select
  some columns only; the model hands over the whole row and the client reads the
  selected columns. A row limit of the server's configuration is not modelled.
\<close>

definition stats_transactions :: "database \<Rightarrow> uuid \<Rightarrow> transaction list" where
  "stats_transactions db projectId = [t \<leftarrow> transactions db. t_project_id t = projectId]"

definition stats_customers :: "database \<Rightarrow> uuid \<Rightarrow> customer list" where
  "stats_customers db projectId = [c \<leftarrow> customers db. c_project_id c = projectId]"

definition stats_subscriptions :: "database \<Rightarrow> uuid \<Rightarrow> subscription list" where
  "stats_subscriptions db projectId =
     [s \<leftarrow> subscriptions db. s_project_id s = projectId \<and> s_status s = ''active'']"

definition chart_transactions :: "database \<Rightarrow> uuid \<Rightarrow> instant \<Rightarrow> transaction list" where
  "chart_transactions db projectId since =
     order_by (\<lambda>a b. asc_nulls_last (t_created_at a) (t_created_at b))
       [t \<leftarrow> transactions db. t_project_id t = projectId
          \<and> (case t_created_at t of None \<Rightarrow> False | Some c \<Rightarrow> since \<le> c)]"

text \<open>
  The list query of \<open>TransactionList\<close>: \<open>select('*, customers (name, email)')\<close> embeds
  the customer a row refers to (or null); it drops no row.
\<close>

record list_query =
  q_project_id :: uuid
  q_status :: "string option"

type_synonym transaction_with_customer = "transaction \<times> (string option \<times> string option) option"

definition embed_customer :: "database \<Rightarrow> transaction \<Rightarrow> transaction_with_customer" where
  "embed_customer db t =
     (t, case t_customer_id t of
           None \<Rightarrow> None
         | Some i \<Rightarrow>
             (case find (\<lambda>c. c_id c = i) (customers db) of
                None \<Rightarrow> None
              | Some c \<Rightarrow> Some (c_name c, c_email c)))"

definition select_transactions :: "database \<Rightarrow> list_query \<Rightarrow> transaction_with_customer list" where
  "select_transactions db q =
     map (embed_customer db)
       (order_by (\<lambda>a b. desc_nulls_first (t_created_at a) (t_created_at b))
          [t \<leftarrow> transactions db. t_project_id t = q_project_id q
             \<and> (case q_status q of None \<Rightarrow> True | Some st \<Rightarrow> t_status t = st)])"

subsection \<open>Dashboard: fetchStats\<close>

text \<open>
  \<^verbatim>\<open>
  const succeededTransactions = transactions?.filter(t => t.status === 'succeeded') || [];
  const totalRevenue = succeededTransactions.reduce((sum, t) => sum + t.amount, 0);
  const totalFees = succeededTransactions.reduce((sum, t) => sum + t.fee_amount, 0);
  const mrr = subscriptions?.reduce((sum, s) => sum + s.amount, 0) || 0;
  setStats({ totalRevenue, totalFees, netRevenue: totalRevenue - totalFees,
    totalTransactions: transactions?.length || 0, totalCustomers: customers?.length || 0,
    activeSubscriptions: subscriptions?.length || 0, mrr });
  \<close>
  Each \<open>data\<close> is null when its query failed. The amounts are integers, which a
  JavaScript number adds exactly up to \<open>2^53\<close>; the sums are taken in \<open>int\<close>.
  Adding \<open>null\<close> to a number adds 0.
\<close>

record stats =
  totalRevenue :: int
  totalFees :: int
  netRevenue :: int
  totalTransactions :: int
  totalCustomers :: int
  activeSubscriptions :: int
  mrr :: int

definition to_number :: "int option \<Rightarrow> int" where
  "to_number v = (case v of None \<Rightarrow> 0 | Some n \<Rightarrow> n)"

definition array_length :: "'a list option \<Rightarrow> int" where
  "array_length a = (case a of None \<Rightarrow> 0 | Some xs \<Rightarrow> int (length xs))"

definition fetchStats ::
  "transaction list option \<Rightarrow> customer list option \<Rightarrow> subscription list option \<Rightarrow> stats" where
  "fetchStats transactions_data customers_data subscriptions_data =
     (let succeededTransactions =
            (case transactions_data of
               None \<Rightarrow> []
             | Some ts \<Rightarrow> filter (\<lambda>t. t_status t = ''succeeded'') ts);
          totalRevenue' = foldl (\<lambda>sum t. sum + t_amount t) 0 succeededTransactions;
          totalFees' = foldl (\<lambda>sum t. sum + to_number (t_fee_amount t)) 0 succeededTransactions;
          mrr' = (case subscriptions_data of
                    None \<Rightarrow> 0
                  | Some ss \<Rightarrow> foldl (\<lambda>sum s. sum + s_amount s) 0 ss)
      in \<lparr>totalRevenue = totalRevenue',
          totalFees = totalFees',
          netRevenue = totalRevenue' - totalFees',
          totalTransactions = array_length transactions_data,
          totalCustomers = array_length customers_data,
          activeSubscriptions = array_length subscriptions_data,
          mrr = mrr'\<rparr>)"

subsection \<open>Dashboard: fetchChartData\<close>

text \<open>
  \<^verbatim>\<open>
  const thirtyDaysAgo = new Date();
  thirtyDaysAgo.setDate(thirtyDaysAgo.getDate() - 30);
  const { data } = await supabase.from('transactions').select('created_at, amount, status')
    .eq('project_id', projectId).gte('created_at', thirtyDaysAgo.toISOString())
    .order('created_at', { ascending: true });
  const groupedByDay = {};
  data?.forEach(transaction => {
    const date = new Date(transaction.created_at).toLocaleDateString();
    if (!groupedByDay[date]) { groupedByDay[date] = { date, revenue: 0 }; }
    if (transaction.status === 'succeeded') {
      groupedByDay[date].revenue += transaction.amount / 100;
    }
  });
  setChartData(Object.values(groupedByDay).slice(-14));
  \<close>
  The viewer's runtime gives \<open>toLocaleDateString\<close> and the calendar arithmetic of
  \<open>setDate\<close>: \<open>setDateBack t n\<close> is the instant of \<open>d.setDate(d.getDate() - n)\<close> for the
  date \<open>d\<close> at \<open>t\<close>. The object \<open>groupedByDay\<close> is an association list in insertion order,
  the order in which \<open>Object.values\<close> lists keys that are not array indices (a date
  string is none, nor is it the name of a property of \<open>Object.prototype\<close>); a key that
  is present holds an object, which is truthy. \<open>revenue\<close> is a JavaScript number; the
  quotient and the sum are taken exactly, in \<open>rat\<close>, and no theorem below depends on
  how they are rounded. The query is a function of \<open>thirtyDaysAgo\<close> that answers with
  \<open>data\<close>, null when it resolved with an error; a query that rejects makes
  \<open>fetchChartData\<close> throw before it sets any state, and is not part of the model.
\<close>

record viewer =
  toLocaleDateString :: "instant \<Rightarrow> string"
  setDateBack :: "instant \<Rightarrow> int \<Rightarrow> instant"

definition utc_viewer :: viewer where
  "utc_viewer =
     \<lparr>toLocaleDateString = toLocaleDateString_en_US_utc,
      setDateBack = (\<lambda>t n. t - n * ms_per_day)\<rparr>"

record bucket =
  date :: string
  revenue :: rat

text \<open>\<open>new Date(null)\<close> is the epoch.\<close>

definition new_Date :: "instant option \<Rightarrow> instant" where
  "new_Date created_at = (case created_at of None \<Rightarrow> 0 | Some c \<Rightarrow> c)"

definition day_of :: "viewer \<Rightarrow> transaction \<Rightarrow> string" where
  "day_of v transaction = toLocaleDateString v (new_Date (t_created_at transaction))"

definition group_day ::
  "viewer \<Rightarrow> (string \<times> bucket) list \<Rightarrow> transaction \<Rightarrow> (string \<times> bucket) list" where
  "group_day v groupedByDay transaction =
     (let d = day_of v transaction;
          g = (if map_of groupedByDay d = None
               then AList.update d \<lparr>date = d, revenue = 0\<rparr> groupedByDay
               else groupedByDay)
      in if t_status transaction = ''succeeded''
         then AList.map_entry d
                (\<lambda>b. b\<lparr>revenue := revenue b + of_int (t_amount transaction) / 100\<rparr>) g
         else g)"

text \<open>\<open>xs.slice(-n)\<close>: the last \<open>n\<close> elements, or all of them when there are fewer.\<close>

definition slice_last :: "nat \<Rightarrow> 'a list \<Rightarrow> 'a list" where
  "slice_last n xs = drop (length xs - n) xs"

definition groupedByDay_of :: "viewer \<Rightarrow> transaction list option \<Rightarrow> (string \<times> bucket) list" where
  "groupedByDay_of v data =
     (case data of None \<Rightarrow> [] | Some rows \<Rightarrow> foldl (group_day v) [] rows)"

definition fetchChartData ::
  "viewer \<Rightarrow> instant \<Rightarrow> (instant \<Rightarrow> transaction list option) \<Rightarrow> bucket list" where
  "fetchChartData v now supabase =
     (let thirtyDaysAgo = setDateBack v now 30;
          data = supabase thirtyDaysAgo
      in slice_last 14 (map snd (groupedByDay_of v data)))"

text \<open>
  The trailing 30-day window at fetch time, as the specification words it: the
  instants from thirty days before the fetch up to the fetch.
\<close>

definition in_trailing_window :: "viewer \<Rightarrow> instant \<Rightarrow> instant \<Rightarrow> bool" where
  "in_trailing_window v now c = (setDateBack v now 30 \<le> c \<and> c \<le> now)"

text \<open>The days of a list of rows, each once, in the order of their first row.\<close>

definition days_in_order :: "viewer \<Rightarrow> transaction list \<Rightarrow> string list" where
  "days_in_order v rows = rev (remdups (rev (map (day_of v) rows)))"

subsection \<open>TransactionList: fetchTransactions\<close>

text \<open>
  \<^verbatim>\<open>
  async function fetchTransactions() {
    setLoading(true);
    try {
      let query = supabase.from('transactions').select(`*, customers (name, email)`)
        .eq('project_id', projectId).order('created_at', { ascending: false });
      if (filter !== 'all') { query = query.eq('status', filter); }
      const { data, error } = await query;
      if (error) throw error;
      setTransactions(data || []);
    } catch (error) {
      console.error('Error fetching transactions:', error);
    } finally {
      setLoading(false);
    }
  }
  \<close>
  The awaited query either rejects (the \<open>await\<close> throws) or resolves to \<open>{data, error}\<close>.
  The component's state is its \<open>transactions\<close>, \<open>loading\<close> and \<open>filter\<close>; the console
  and the requests sent are recorded beside it.
\<close>

datatype 'a response = Rejected string | Resolved "'a list option" "string option"

record transaction_list =
  tl_transactions :: "transaction_with_customer list"
  tl_loading :: bool
  tl_filter :: string
  console_error :: "(string \<times> string) list"
  requests :: "list_query list"

definition list_query_for :: "uuid \<Rightarrow> string \<Rightarrow> list_query" where
  "list_query_for projectId filter_value =
     \<lparr>q_project_id = projectId,
      q_status = (if filter_value \<noteq> ''all'' then Some filter_value else None)\<rparr>"

definition fetchTransactions ::
  "(list_query \<Rightarrow> transaction_with_customer response) \<Rightarrow> uuid \<Rightarrow> transaction_list
     \<Rightarrow> transaction_list" where
  "fetchTransactions supabase projectId s =
     (let s1 = s\<lparr>tl_loading := True\<rparr>;
          query = list_query_for projectId (tl_filter s1);
          s2 = s1\<lparr>requests := requests s1 @ [query]\<rparr>;
          s3 = (case supabase query of
                  Rejected e \<Rightarrow>
                    s2\<lparr>console_error := console_error s2 @ [(''Error fetching transactions:'', e)]\<rparr>
                | Resolved data error \<Rightarrow>
                    (case error of
                       Some e \<Rightarrow>
                         s2\<lparr>console_error :=
                              console_error s2 @ [(''Error fetching transactions:'', e)]\<rparr>
                     | None \<Rightarrow>
                         s2\<lparr>tl_transactions := (case data of None \<Rightarrow> [] | Some rows \<Rightarrow> rows)\<rparr>))
      in s3\<lparr>tl_loading := False\<rparr>)"

text \<open>The data-access layer over a database whose queries succeed.\<close>

definition supabase_of :: "database \<Rightarrow> list_query \<Rightarrow> transaction_with_customer response" where
  "supabase_of db q = Resolved (Some (select_transactions db q)) None"

text \<open>The error of a failed query: a rejection, or a resolved \<open>error\<close> that is not null.\<close>

definition failure :: "'a response \<Rightarrow> string option" where
  "failure r = (case r of Rejected e \<Rightarrow> Some e | Resolved data error \<Rightarrow> error)"

subsection \<open>Reference forms used in the proofs\<close>

text \<open>
  The row of \<open>monthly_revenue_by_project\<close> for a project and one of its groups: the
  month and the project's transactions of that month.
\<close>

definition project_month_row ::
  "project \<Rightarrow> sql_date option \<times> transaction list \<Rightarrow> monthly_revenue_row" where
  "project_month_row p kg =
     monthly_row ((fst kg, p_id p, p_name p), map (\<lambda>t. (t, p)) (snd kg))"

text \<open>
  The bucket of a day after the rows have been grouped: its revenue is the sum over
  the succeeded rows of that day.
\<close>

definition bucket_of :: "viewer \<Rightarrow> transaction list \<Rightarrow> string \<Rightarrow> bucket" where
  "bucket_of v rows d =
     \<lparr>date = d,
      revenue = (\<Sum>t\<leftarrow>[t \<leftarrow> rows. day_of v t = d \<and> t_status t = ''succeeded''].
                   of_int (t_amount t) / 100)\<rparr>"

subsection \<open>Example data\<close>

text \<open>
  Three projects. Shop has the two transactions of the specification's example (a
  succeeded payment of 1000 with fee 50 and no linked customer on 2025-01-01, a failed
  one of 500 on 2025-01-15) and three subscriptions, two of them active. Blog has no
  row in any table. Lab has a failed transaction in February 2025 and two succeeded
  payments of one customer in March 2025.
\<close>

definition shop :: project where
  "shop = \<lparr>p_id = ''p1'', p_name = ''Shop''\<rparr>"

definition blog :: project where
  "blog = \<lparr>p_id = ''p2'', p_name = ''Blog''\<rparr>"

definition lab :: project where
  "lab = \<lparr>p_id = ''p3'', p_name = ''Lab''\<rparr>"

definition tx1 :: transaction where
  "tx1 = \<lparr>t_id = ''t1'', t_project_id = ''p1'', t_customer_id = None, t_external_id = ''ch_1'',
          t_type = ''payment'', t_status = ''succeeded'', t_amount = 1000,
          t_fee_amount = Some 50, t_net_amount = Some 950,
          t_created_at = Some 1735732800000\<rparr>"

definition tx2 :: transaction where
  "tx2 = \<lparr>t_id = ''t2'', t_project_id = ''p1'', t_customer_id = None, t_external_id = ''ch_2'',
          t_type = ''payment'', t_status = ''failed'', t_amount = 500,
          t_fee_amount = Some 0, t_net_amount = Some 500,
          t_created_at = Some 1736899200000\<rparr>"

definition tx3 :: transaction where
  "tx3 = \<lparr>t_id = ''t3'', t_project_id = ''p3'', t_customer_id = Some ''c1'',
          t_external_id = ''ch_3'', t_type = ''payment'', t_status = ''failed'', t_amount = 700,
          t_fee_amount = Some 0, t_net_amount = Some 700,
          t_created_at = Some 1739145600000\<rparr>"

definition tx4 :: transaction where
  "tx4 = \<lparr>t_id = ''t4'', t_project_id = ''p3'', t_customer_id = Some ''c1'',
          t_external_id = ''ch_4'', t_type = ''payment'', t_status = ''succeeded'', t_amount = 250,
          t_fee_amount = Some 10, t_net_amount = Some 240,
          t_created_at = Some 1740960000000\<rparr>"

definition tx5 :: transaction where
  "tx5 = \<lparr>t_id = ''t5'', t_project_id = ''p3'', t_customer_id = Some ''c1'',
          t_external_id = ''ch_5'', t_type = ''payment'', t_status = ''succeeded'', t_amount = 100,
          t_fee_amount = Some 5, t_net_amount = Some 95,
          t_created_at = Some 1742428800000\<rparr>"

definition sub1 :: subscription where
  "sub1 = \<lparr>s_id = ''s1'', s_project_id = ''p1'', s_customer_id = ''c2'', s_amount = 2000,
           s_status = ''active'', s_cancel_at_period_end = Some False,
           s_created_at = Some 1735732800000\<rparr>"

definition sub2 :: subscription where
  "sub2 = \<lparr>s_id = ''s2'', s_project_id = ''p1'', s_customer_id = ''c2'', s_amount = 900,
           s_status = ''canceled'', s_cancel_at_period_end = Some False,
           s_created_at = Some 1735732800000\<rparr>"

definition sub3 :: subscription where
  "sub3 = \<lparr>s_id = ''s3'', s_project_id = ''p1'', s_customer_id = ''c2'', s_amount = 500,
           s_status = ''active'', s_cancel_at_period_end = Some True,
           s_created_at = Some 1736899200000\<rparr>"

definition example_db :: database where
  "example_db =
     \<lparr>projects = [shop, blog, lab],
      customers = [\<lparr>c_id = ''c1'', c_project_id = ''p3'', c_name = Some ''Ada'', c_email = None\<rparr>,
                   \<lparr>c_id = ''c2'', c_project_id = ''p1'', c_name = None, c_email = None\<rparr>],
      transactions = [tx1, tx2, tx3, tx4, tx5],
      subscriptions = [sub1, sub2, sub3]\<rparr>"

text \<open>The writes that store the two transactions of Shop, and then change a fee.\<close>

definition example_writes :: "transactions_write list" where
  "example_writes =
     [Insert tx1 (Val 1000) (Val 50) Default,
      Insert tx2 (Val 500) Default Default,
      Update ''t2'' None (Some (Val 20)) None]"

text \<open>The state of \<open>TransactionList\<close> when it mounts, and after a first fetch.\<close>

definition initial_transaction_list :: transaction_list where
  "initial_transaction_list =
     \<lparr>tl_transactions = [], tl_loading = True, tl_filter = ''all'', console_error = [],
      requests = []\<rparr>"

definition loaded_transaction_list :: transaction_list where
  "loaded_transaction_list = fetchTransactions (supabase_of example_db) ''p1'' initial_transaction_list"

definition offline :: "list_query \<Rightarrow> transaction_with_customer response" where
  "offline q = Rejected ''TypeError: Failed to fetch''"

text \<open>
  A fetch at 2025-01-31 23:59:30 UTC by the viewer's clock, of a project whose one
  transaction the database stamped 2025-02-01 00:00:10 UTC.
\<close>

definition late_now :: instant where
  "late_now = 1738367970000"

definition late_db :: database where
  "late_db =
     \<lparr>projects = [shop], customers = [],
      transactions = [tx1\<lparr>t_created_at := Some 1738368010000\<rparr>],
      subscriptions = []\<rparr>"

text \<open>
  A fetch at 2025-01-31 12:00 UTC of a project with one failed transaction on each
  of the fifteen days from 2025-01-05 to 2025-01-19, at 09:00 UTC.
\<close>

definition busy_now :: instant where
  "busy_now = 1738324800000"

definition failed_on :: "nat \<Rightarrow> transaction" where
  "failed_on i =
     tx2\<lparr>t_id := ''f'' @ decimal (int i), t_external_id := ''ch_f'' @ decimal (int i),
         t_created_at := Some (1736067600000 + int i * ms_per_day)\<rparr>"

definition busy_db :: database where
  "busy_db =
     \<lparr>projects = [shop], customers = [], transactions = map failed_on [0..<15],
      subscriptions = []\<rparr>"

text \<open>Rows of \<open>monthly_revenue_by_project\<close> over the example data.\<close>

definition lab_february :: monthly_revenue_row where
  "lab_february =
     \<lparr>month = Some (2025, 2, 1), mr_project_id = ''p3'', mr_project_name = ''Lab'',
      total_revenue = Some 0, total_fees = Some 0, net_revenue = Some 0, paying_customers = 0\<rparr>"

definition shop_january :: monthly_revenue_row where
  "shop_january =
     \<lparr>month = Some (2025, 1, 1), mr_project_id = ''p1'', mr_project_name = ''Shop'',
      total_revenue = Some 1000, total_fees = Some 50, net_revenue = Some 950,
      paying_customers = 0\<rparr>"

section \<open>Lemmas\<close>

subsection \<open>ORDER BY\<close>

lemma set_insort_by: "set (insort_by le x xs) = insert x (set xs)"
  by (induction xs) auto

lemma mset_insort_by: "mset (insort_by le x xs) = add_mset x (mset xs)"
  by (induction xs) auto

lemma mset_order_by: "mset (order_by le xs) = mset xs"
  by (induction xs) (simp_all add: order_by_def mset_insort_by)

lemma set_order_by: "set (order_by le xs) = set xs"
  using mset_order_by [of le xs] by (metis set_mset_mset)

lemma sorted_insort_by:
  assumes total: "\<And>x y. le x y \<or> le y x"
    and trans: "\<And>x y z. le x y \<Longrightarrow> le y z \<Longrightarrow> le x z"
  shows "sorted_wrt le xs \<Longrightarrow> sorted_wrt le (insort_by le x xs)"
proof (induction xs)
  case Nil
  show ?case by simp
next
  case (Cons y ys)
  show ?case
  proof (cases "le x y")
    case True
    have "\<forall>z\<in>set ys. le x z" using Cons.prems True trans by auto
    with True Cons.prems show ?thesis by simp
  next
    case False
    then have "le y x" using total by blast
    with False Cons show ?thesis by (auto simp: set_insort_by)
  qed
qed

lemma sorted_order_by:
  assumes "\<And>x y. le x y \<or> le y x"
    and "\<And>x y z. le x y \<Longrightarrow> le y z \<Longrightarrow> le x z"
  shows "sorted_wrt le (order_by le xs)"
proof (induction xs)
  case Nil
  show ?case by (simp add: order_by_def)
next
  case (Cons x xs)
  have "order_by le (x # xs) = insort_by le x (order_by le xs)"
    by (simp add: order_by_def)
  with Cons sorted_insort_by [of le, OF assms] show ?case by simp
qed

lemma desc_nulls_first_total: "desc_nulls_first a b \<or> desc_nulls_first b a"
  by (auto simp: desc_nulls_first_def split: option.splits)

lemma desc_nulls_first_trans:
  "desc_nulls_first a b \<Longrightarrow> desc_nulls_first b c \<Longrightarrow> desc_nulls_first a c"
  by (auto simp: desc_nulls_first_def split: option.splits)

subsection \<open>JOIN on a key\<close>

lemma filter_distinct_key:
  "distinct (map k ps) \<Longrightarrow> p \<in> set ps \<Longrightarrow> [q \<leftarrow> ps. k q = k p] = [p]"
proof (induction ps)
  case Nil
  then show ?case by simp
next
  case (Cons a ps)
  show ?case
  proof (cases "a = p")
    case True
    have "[q \<leftarrow> ps. k q = k p] = []"
      using Cons.prems True by (auto simp: filter_empty_conv image_iff)
    with True show ?thesis by simp
  next
    case False
    with Cons have "p \<in> set ps" "k a \<noteq> k p" by (auto simp: image_iff)
    with Cons show ?thesis by simp
  qed
qed

lemma join_inner:
  "concat (map (\<lambda>p. if c p then [(x, p)] else []) ps) = map (Pair x) (filter c ps)"
  by (induction ps) auto

lemma join_of_project:
  assumes "distinct (map k ps)" and "p \<in> set ps"
  shows "filter (\<lambda>xp. k (snd xp) = k p) [(x, q). x \<leftarrow> xs, q \<leftarrow> ps, fk x = k q]
           = map (\<lambda>x. (x, p)) [x \<leftarrow> xs. fk x = k p]"
proof (induction xs)
  case Nil
  show ?case by simp
next
  case (Cons x xs)
  have "filter (\<lambda>xp. k (snd xp) = k p) (map (Pair x) (filter (\<lambda>q. fk x = k q) ps))
          = map (Pair x) (filter (\<lambda>q. fk x = k p) [q \<leftarrow> ps. k q = k p])"
    by (simp add: filter_map o_def conj_commute) (metis (mono_tags, lifting) filter_cong)
  also have "\<dots> = (if fk x = k p then [(x, p)] else [])"
    by (simp add: filter_distinct_key [OF assms])
  finally show ?case using Cons by (simp add: join_inner)
qed

subsection \<open>GROUP BY\<close>

lemma filter_group_by:
  "filter (\<lambda>kg. Q (fst kg)) (group_by key xs) = group_by key (filter (\<lambda>x. Q (key x)) xs)"
proof -
  have keys: "filter Q (remdups (map key xs)) = remdups (map key (filter (\<lambda>x. Q (key x)) xs))"
    by (induction xs) auto
  have "filter (\<lambda>kg. Q (fst kg)) (group_by key xs)
          = map (\<lambda>k. (k, filter (\<lambda>x. key x = k) xs)) (filter Q (remdups (map key xs)))"
    by (simp add: group_by_def filter_map o_def)
  also have "\<dots> = map (\<lambda>k. (k, filter (\<lambda>x. key x = k) (filter (\<lambda>x. Q (key x)) xs)))
                     (filter Q (remdups (map key xs)))"
    by (rule map_cong) (auto intro: filter_cong)
  finally show ?thesis by (simp add: group_by_def keys)
qed

lemma remdups_map_inj: "inj g \<Longrightarrow> remdups (map g xs) = map g (remdups xs)"
  by (induction xs) (auto simp: inj_image_mem_iff)

lemma group_by_map:
  "group_by key (map h xs) = map (\<lambda>kg. (fst kg, map h (snd kg))) (group_by (\<lambda>x. key (h x)) xs)"
  by (simp add: group_by_def filter_map o_def)

lemma group_by_inj:
  assumes "inj g"
  shows "group_by (\<lambda>x. g (key x)) xs = map (\<lambda>kg. (g (fst kg), snd kg)) (group_by key xs)"
proof -
  have "remdups (map (\<lambda>x. g (key x)) xs) = map g (remdups (map key xs))"
    using remdups_map_inj [OF assms, of "map key xs"] by (simp add: o_def)
  moreover have "(g (key x) = g k) = (key x = k)" for x k
    using assms by (auto dest: injD)
  ultimately show ?thesis by (simp add: group_by_def o_def)
qed

lemma group_by_member:
  "(k, g) \<in> set (group_by key xs) \<longleftrightarrow> k \<in> key ` set xs \<and> g = filter (\<lambda>x. key x = k) xs"
  by (auto simp: group_by_def)

lemma group_by_nonempty: "(k, g) \<in> set (group_by key xs) \<Longrightarrow> g \<noteq> []"
  by (auto simp: group_by_member filter_empty_conv)

lemma sum_list_single:
  "distinct ks \<Longrightarrow> a \<in> set ks \<Longrightarrow> (\<Sum>k\<leftarrow>ks. if a = k then c else 0) = (c::int)"
proof (induction ks)
  case Nil
  then show ?case by simp
next
  case (Cons k ks)
  show ?case
  proof (cases "a = k")
    case True
    then have "a \<notin> set ks" using Cons.prems by auto
    then have "(\<Sum>k\<leftarrow>ks. if a = k then c else 0) = 0"
      by (induction ks) auto
    with True show ?thesis by simp
  next
    case False
    with Cons show ?thesis by simp
  qed
qed

lemma sum_list_partition:
  fixes f :: "'a \<Rightarrow> int"
  assumes "distinct ks"
  shows "key ` set xs \<subseteq> set ks \<Longrightarrow>
    (\<Sum>k\<leftarrow>ks. sum_list (map f (filter (\<lambda>x. key x = k) xs))) = sum_list (map f xs)"
proof (induction xs)
  case Nil
  show ?case by simp
next
  case (Cons x xs)
  have "(\<Sum>k\<leftarrow>ks. sum_list (map f (filter (\<lambda>y. key y = k) (x # xs))))
          = (\<Sum>k\<leftarrow>ks. (if key x = k then f x else 0)
                 + sum_list (map f (filter (\<lambda>y. key y = k) xs)))"
    by (rule arg_cong [where f = sum_list], rule map_cong) auto
  also have "\<dots> = (\<Sum>k\<leftarrow>ks. if key x = k then f x else 0)
                     + (\<Sum>k\<leftarrow>ks. sum_list (map f (filter (\<lambda>y. key y = k) xs)))"
    by (simp add: sum_list_addf)
  also have "\<dots> = f x + sum_list (map f xs)"
    using Cons sum_list_single [OF assms, of "key x" "f x"] by simp
  finally show ?case by simp
qed

lemma sum_list_group_by:
  fixes f :: "'a \<Rightarrow> int"
  shows "(\<Sum>kg\<leftarrow>group_by key xs. sum_list (map f (snd kg))) = sum_list (map f xs)"
  using sum_list_partition [of "remdups (map key xs)" key xs f]
  by (simp add: group_by_def o_def)

subsection \<open>Writes to the transactions table\<close>

lemma transactions_row_consistent:
  "transactions_row others amount fee_amount net_amount = Inr r \<Longrightarrow> net_amount_consistent r"
  by (auto simp: transactions_row_def integer_column_def net_amount_expr_def sql_minus_def
      net_amount_consistent_def
      split: if_splits sum.splits option.splits supplied.splits)

lemma update_rows_preserves:
  assumes "\<And>r r'. f r = Inr r' \<Longrightarrow> P r'"
  shows "\<forall>r\<in>set rs. P r \<Longrightarrow> update_rows f i rs = Inr rs' \<Longrightarrow> \<forall>r\<in>set rs'. P r"
proof (induction rs arbitrary: rs')
  case Nil
  then show ?case by simp
next
  case (Cons r rs)
  then show ?case
    using assms by (auto split: if_splits sum.splits)
qed

lemma execute_consistent:
  assumes "\<forall>r\<in>set table. net_amount_consistent r" and "execute table w = Inr table'"
  shows "\<forall>r\<in>set table'. net_amount_consistent r"
proof (cases w)
  case (Insert others a f n)
  with assms show ?thesis
    by (auto split: sum.splits if_splits dest: transactions_row_consistent)
next
  case (Update i a f n)
  have "update_row a f n r = Inr r' \<Longrightarrow> net_amount_consistent r'" for r r'
    unfolding update_row_def by (rule transactions_row_consistent)
  with assms Update show ?thesis
    using update_rows_preserves [of "update_row a f n" net_amount_consistent table i table']
    by (simp split: option.splits)
next
  case (Delete i)
  with assms show ?thesis by auto
qed

lemma execute_all_consistent:
  "\<forall>r\<in>set table. net_amount_consistent r \<Longrightarrow> execute_all table ws = Inr table'
     \<Longrightarrow> \<forall>r\<in>set table'. net_amount_consistent r"
proof (induction ws arbitrary: table)
  case Nil
  then show ?case by simp
next
  case (Cons w ws)
  then show ?case
    by (auto split: sum.splits dest: execute_consistent)
qed

subsection \<open>The list query\<close>

lemma fst_embed_customer: "fst (embed_customer db t) = t"
  by (simp add: embed_customer_def)

lemma map_fst_select_transactions:
  "map fst (select_transactions db q) =
     order_by (\<lambda>a b. desc_nulls_first (t_created_at a) (t_created_at b))
       [t \<leftarrow> transactions db. t_project_id t = q_project_id q
          \<and> (case q_status q of None \<Rightarrow> True | Some st \<Rightarrow> t_status t = st)]"
  by (simp add: select_transactions_def o_def fst_embed_customer)

lemma fetchTransactions_success:
  "tl_transactions (fetchTransactions (supabase_of db) projectId s) =
     select_transactions db (list_query_for projectId (tl_filter s))"
  by (simp add: fetchTransactions_def supabase_of_def Let_def)

subsection \<open>The monthly revenue view\<close>


lemma sum_list_map_filter_perm:
  fixes f :: "'a \<Rightarrow> int option"
  assumes "mset xs = mset ys"
  shows "sum_list (List.map_filter f xs) = sum_list (List.map_filter f ys)"
proof -
  have "mset (List.map_filter f zs)
          = image_mset (the \<circ> f) (filter_mset (\<lambda>x. f x \<noteq> None) (mset zs))" for zs
    by (simp add: List.map_filter_def)
  then have "mset (List.map_filter f xs) = mset (List.map_filter f ys)"
    using assms by simp
  then show ?thesis by (metis sum_mset_sum_list)
qed

lemma map_filter_Some:
  "(\<And>x. x \<in> set xs \<Longrightarrow> f x = Some (h x)) \<Longrightarrow> List.map_filter f xs = map h xs"
  by (induction xs) (simp_all add: List.map_filter_simps)

lemma sql_sum_Some:
  "xs \<noteq> [] \<Longrightarrow> sql_sum (map (\<lambda>x. Some (f x)) xs) = Some (sum_list (map f xs))"
proof -
  have "List.map_filter (\<lambda>v. v) (map (\<lambda>x. Some (f x)) xs) = map f xs"
    by (induction xs) (simp_all add: List.map_filter_simps)
  then show "xs \<noteq> [] \<Longrightarrow> ?thesis" by (simp add: sql_sum_def)
qed

lemma monthly_rows_of_project:
  assumes "distinct (map p_id (projects db))" and "p \<in> set (projects db)"
  shows "mset [r \<leftarrow> monthly_revenue_by_project trunc db. mr_project_id r = p_id p]
    = mset (map (project_month_row p)
        (group_by (\<lambda>t. map_option trunc (t_created_at t))
           [t \<leftarrow> transactions db. t_project_id t = p_id p]))"
proof -
  let ?J = "transactions_join_projects db"
  let ?Tp = "[t \<leftarrow> transactions db. t_project_id t = p_id p]"
  let ?mo = "\<lambda>t. map_option trunc (t_created_at t)"
  let ?g = "\<lambda>m. (m, p_id p, p_name p)"
  have inj: "inj ?g" by (simp add: inj_def)
  have "mset [r \<leftarrow> monthly_revenue_by_project trunc db. mr_project_id r = p_id p]
      = mset [r \<leftarrow> map monthly_row (group_by (monthly_key trunc) ?J). mr_project_id r = p_id p]"
    by (simp add: monthly_revenue_by_project_def mset_order_by)
  also have "[r \<leftarrow> map monthly_row (group_by (monthly_key trunc) ?J). mr_project_id r = p_id p]
      = map monthly_row
          (filter (\<lambda>kg. fst (snd (fst kg)) = p_id p) (group_by (monthly_key trunc) ?J))"
    by (simp add: filter_map o_def monthly_row_def Let_def)
  also have "filter (\<lambda>kg. fst (snd (fst kg)) = p_id p) (group_by (monthly_key trunc) ?J)
      = group_by (monthly_key trunc) (filter (\<lambda>x. p_id (snd x) = p_id p) ?J)"
    using filter_group_by [of "\<lambda>k. fst (snd k) = p_id p" "monthly_key trunc" ?J]
    by (simp add: monthly_key_def)
  also have "filter (\<lambda>x. p_id (snd x) = p_id p) ?J = map (\<lambda>t. (t, p)) ?Tp"
    unfolding transactions_join_projects_def by (rule join_of_project [OF assms])
  also have "group_by (monthly_key trunc) (map (\<lambda>t. (t, p)) ?Tp)
      = map (\<lambda>kg. (fst kg, map (\<lambda>t. (t, p)) (snd kg))) (group_by (\<lambda>t. ?g (?mo t)) ?Tp)"
    by (simp add: group_by_map monthly_key_def)
  also have "group_by (\<lambda>t. ?g (?mo t)) ?Tp = map (\<lambda>kg. (?g (fst kg), snd kg)) (group_by ?mo ?Tp)"
    by (rule group_by_inj [OF inj])
  finally show ?thesis
    by (simp add: o_def project_month_row_def [abs_def])
qed

lemma project_month_row_simps:
  "month (project_month_row p kg) = fst kg"
  "mr_project_id (project_month_row p kg) = p_id p"
  "total_revenue (project_month_row p kg) =
     sql_sum (map (\<lambda>t. Some (if t_status t = ''succeeded'' then t_amount t else 0)) (snd kg))"
  "total_fees (project_month_row p kg) =
     sql_sum (map (\<lambda>t. if t_status t = ''succeeded'' then t_fee_amount t else Some 0) (snd kg))"
  "net_revenue (project_month_row p kg) =
     sql_sum (map (\<lambda>t. if t_status t = ''succeeded''
                        then sql_minus (Some (t_amount t)) (t_fee_amount t) else Some 0) (snd kg))"
  "paying_customers (project_month_row p kg) =
     sql_count_distinct
       (map (\<lambda>t. if t_status t = ''succeeded'' \<and> t_type t = ''payment''
                  then t_customer_id t else None) (snd kg))"
  by (simp_all add: project_month_row_def monthly_row_def Let_def o_def if_distrib cong: if_cong)

lemma monthly_total_revenue_sum:
  assumes "distinct (map p_id (projects db))" and "p \<in> set (projects db)"
  shows "sum_list (List.map_filter total_revenue
             [r \<leftarrow> monthly_revenue_by_project trunc db. mr_project_id r = p_id p])
         = sum_list (map t_amount
             [t \<leftarrow> transactions db. t_project_id t = p_id p \<and> t_status t = ''succeeded''])"
proof -
  let ?Tp = "[t \<leftarrow> transactions db. t_project_id t = p_id p]"
  let ?mo = "\<lambda>t. map_option trunc (t_created_at t)"
  let ?cf = "\<lambda>t. if t_status t = ''succeeded'' then t_amount t else 0"
  let ?G = "group_by ?mo ?Tp"
  have row: "total_revenue (project_month_row p kg) = Some (sum_list (map ?cf (snd kg)))"
    if "kg \<in> set ?G" for kg
  proof -
    have "snd kg \<noteq> []" using that group_by_nonempty [of "fst kg" "snd kg" ?mo ?Tp] by simp
    then show ?thesis by (simp add: project_month_row_simps sql_sum_Some)
  qed
  have "sum_list (List.map_filter total_revenue
             [r \<leftarrow> monthly_revenue_by_project trunc db. mr_project_id r = p_id p])
      = sum_list (List.map_filter total_revenue (map (project_month_row p) ?G))"
    by (rule sum_list_map_filter_perm, rule monthly_rows_of_project [OF assms])
  also have "List.map_filter total_revenue (map (project_month_row p) ?G)
      = List.map_filter (\<lambda>kg. total_revenue (project_month_row p kg)) ?G"
    by (simp add: List.map_filter_def filter_map o_def)
  also have "\<dots> = map (\<lambda>kg. sum_list (map ?cf (snd kg))) ?G"
    by (rule map_filter_Some) (rule row)
  also have "sum_list \<dots> = sum_list (map ?cf ?Tp)"
    by (rule sum_list_group_by)
  also have "\<dots> = sum_list (map t_amount (filter (\<lambda>t. t_status t = ''succeeded'') ?Tp))"
    by (simp add: sum_list_map_filter' [symmetric])
  finally show ?thesis by simp
qed

lemma monthly_rows_set:
  assumes "distinct (map p_id (projects db))" and "p \<in> set (projects db)"
  shows "{r \<in> set (monthly_revenue_by_project trunc db). mr_project_id r = p_id p}
    = project_month_row p ` set (group_by (\<lambda>t. map_option trunc (t_created_at t))
           [t \<leftarrow> transactions db. t_project_id t = p_id p])"
proof -
  have "set [r \<leftarrow> monthly_revenue_by_project trunc db. mr_project_id r = p_id p]
    = set (map (project_month_row p)
        (group_by (\<lambda>t. map_option trunc (t_created_at t))
           [t \<leftarrow> transactions db. t_project_id t = p_id p]))"
    using monthly_rows_of_project [OF assms, of trunc] by (rule mset_eq_setD)
  then show ?thesis by simp
qed

lemma sql_sum_zeros:
  "xs \<noteq> [] \<Longrightarrow> \<forall>x\<in>set xs. f x = Some 0 \<Longrightarrow> sql_sum (map f xs) = Some 0"
proof -
  assume ne: "xs \<noteq> []" and z: "\<forall>x\<in>set xs. f x = Some 0"
  have eq: "map f xs = map (\<lambda>x. Some 0) xs" using z by simp
  show ?thesis using sql_sum_Some [OF ne, of "\<lambda>_. 0"] by (simp add: eq)
qed

lemma monthly_row_exists:
  assumes "distinct (map p_id (projects db))" and "p \<in> set (projects db)"
  shows "(\<exists>r\<in>set (monthly_revenue_by_project trunc db). mr_project_id r = p_id p \<and> month r = m)
     \<longleftrightarrow> (\<exists>t\<in>set (transactions db). t_project_id t = p_id p
            \<and> map_option trunc (t_created_at t) = m)"
proof -
  let ?Tp = "[t \<leftarrow> transactions db. t_project_id t = p_id p]"
  let ?mo = "\<lambda>t. map_option trunc (t_created_at t)"
  have "(\<exists>r\<in>set (monthly_revenue_by_project trunc db). mr_project_id r = p_id p \<and> month r = m)
     \<longleftrightarrow> (\<exists>r\<in>{r \<in> set (monthly_revenue_by_project trunc db). mr_project_id r = p_id p}. month r = m)"
    by auto
  also have "\<dots> \<longleftrightarrow> (\<exists>kg\<in>set (group_by ?mo ?Tp). fst kg = m)"
    unfolding monthly_rows_set [OF assms] by (simp add: project_month_row_simps)
  also have "\<dots> \<longleftrightarrow> m \<in> ?mo ` set ?Tp"
    by (auto simp: group_by_def image_iff)
  finally show ?thesis by auto
qed

lemma monthly_row_zero:
  assumes "distinct (map p_id (projects db))" and "p \<in> set (projects db)"
    and "r \<in> set (monthly_revenue_by_project trunc db)" and "mr_project_id r = p_id p"
    and "\<forall>t\<in>set (transactions db). t_project_id t = p_id p
            \<and> map_option trunc (t_created_at t) = month r \<longrightarrow> t_status t \<noteq> ''succeeded''"
  shows "total_revenue r = Some 0 \<and> total_fees r = Some 0 \<and> net_revenue r = Some 0"
proof -
  let ?Tp = "[t \<leftarrow> transactions db. t_project_id t = p_id p]"
  let ?mo = "\<lambda>t. map_option trunc (t_created_at t)"
  from assms(3,4) obtain kg where kg: "kg \<in> set (group_by ?mo ?Tp)" and r: "r = project_month_row p kg"
    using monthly_rows_set [OF assms(1,2), of trunc] by blast
  have g: "snd kg = filter (\<lambda>t. ?mo t = fst kg) ?Tp"
    using kg group_by_member [of "fst kg" "snd kg" ?mo ?Tp] by simp
  have ne: "snd kg \<noteq> []"
    using kg group_by_nonempty [of "fst kg" "snd kg" ?mo ?Tp] by simp
  have ns: "\<forall>t\<in>set (snd kg). t_status t \<noteq> ''succeeded''"
    using assms(5) g r by (simp add: project_month_row_simps)
  show ?thesis
    unfolding r project_month_row_simps
    using ns by (auto intro!: sql_sum_zeros [OF ne])
qed

lemma sql_count_distinct_card:
  "sql_count_distinct (map h xs) = card {c. \<exists>x\<in>set xs. h x = Some c}"
proof -
  have "set (List.map_filter (\<lambda>v. v) (map h xs)) = {c. \<exists>x\<in>set xs. h x = Some c}"
    by (auto simp: List.map_filter_def image_iff) force
  then show ?thesis
    by (simp add: sql_count_distinct_def length_remdups_card_conv)
qed

lemma monthly_paying_customers:
  assumes "distinct (map p_id (projects db))" and "p \<in> set (projects db)"
    and "r \<in> set (monthly_revenue_by_project trunc db)" and "mr_project_id r = p_id p"
  shows "paying_customers r =
     card {c. \<exists>t\<in>set (transactions db). t_project_id t = p_id p
            \<and> map_option trunc (t_created_at t) = month r
            \<and> t_status t = ''succeeded'' \<and> t_type t = ''payment'' \<and> t_customer_id t = Some c}"
proof -
  let ?Tp = "[t \<leftarrow> transactions db. t_project_id t = p_id p]"
  let ?mo = "\<lambda>t. map_option trunc (t_created_at t)"
  from assms(3,4) obtain kg where kg: "kg \<in> set (group_by ?mo ?Tp)" and r: "r = project_month_row p kg"
    using monthly_rows_set [OF assms(1,2), of trunc] by blast
  have g: "snd kg = filter (\<lambda>t. ?mo t = fst kg) ?Tp"
    using kg group_by_member [of "fst kg" "snd kg" ?mo ?Tp] by simp
  have "{c. \<exists>x\<in>set (snd kg). (if t_status x = ''succeeded'' \<and> t_type x = ''payment''
                  then t_customer_id x else None) = Some c}
      = {c. \<exists>t\<in>set (transactions db). t_project_id t = p_id p
            \<and> map_option trunc (t_created_at t) = month r
            \<and> t_status t = ''succeeded'' \<and> t_type t = ''payment'' \<and> t_customer_id t = Some c}"
    unfolding g r project_month_row_simps by auto
  then show ?thesis
    unfolding r project_month_row_simps sql_count_distinct_card by simp
qed

subsection \<open>The active subscriptions view and the client's MRR\<close>

lemma group_by_const:
  "group_by (\<lambda>_. c) xs = (if xs = [] then [] else [(c, xs)])"
proof -
  have "remdups (map (\<lambda>_. c) xs) = (if xs = [] then [] else [c])"
    by (induction xs) (auto simp: image_iff)
  then show ?thesis by (simp add: group_by_def)
qed

lemma active_rows_of_project:
  assumes "distinct (map p_id (projects db))" and "p \<in> set (projects db)"
  shows "[r \<leftarrow> active_subscriptions_by_project db. as_project_id r = p_id p]
    = (let ss = [s \<leftarrow> subscriptions db. s_project_id s = p_id p \<and> s_status s = ''active'']
       in if ss = [] then []
          else [\<lparr>as_project_id = p_id p, as_project_name = p_name p,
                 total_active = length ss,
                 as_mrr = Some (sum_list (map s_amount ss)),
                 scheduled_cancellations =
                   length [s \<leftarrow> ss. s_cancel_at_period_end s = Some True]\<rparr>])"
proof -
  let ?J = "subscriptions_join_projects db"
  let ?A = "filter (\<lambda>sp. s_status (fst sp) = ''active'') ?J"
  let ?Sp = "[s \<leftarrow> subscriptions db. s_project_id s = p_id p]"
  let ?ss = "[s \<leftarrow> subscriptions db. s_project_id s = p_id p \<and> s_status s = ''active'']"
  have J: "filter (\<lambda>x. p_id (snd x) = p_id p) ?J = map (\<lambda>s. (s, p)) ?Sp"
    unfolding subscriptions_join_projects_def by (rule join_of_project [OF assms])
  have "filter (\<lambda>x. p_id (snd x) = p_id p) ?A
      = filter (\<lambda>sp. s_status (fst sp) = ''active'') (filter (\<lambda>x. p_id (snd x) = p_id p) ?J)"
    by (simp add: conj_commute)
  also have "\<dots> = map (\<lambda>s. (s, p)) ?ss"
    unfolding J by (simp add: filter_map o_def)
  finally have A: "filter (\<lambda>x. p_id (snd x) = p_id p) ?A = map (\<lambda>s. (s, p)) ?ss" .
  have "[r \<leftarrow> active_subscriptions_by_project db. as_project_id r = p_id p]
      = map active_row (filter (\<lambda>kg. fst (fst kg) = p_id p) (group_by active_key ?A))"
    by (simp add: active_subscriptions_by_project_def filter_map o_def active_row_def Let_def)
  also have "filter (\<lambda>kg. fst (fst kg) = p_id p) (group_by active_key ?A)
      = group_by active_key (filter (\<lambda>x. p_id (snd x) = p_id p) ?A)"
    using filter_group_by [of "\<lambda>k. fst k = p_id p" active_key ?A]
    by (simp add: active_key_def)
  also have "\<dots> = map (\<lambda>kg. (fst kg, map (\<lambda>s. (s, p)) (snd kg)))
                     (group_by (\<lambda>s. (p_id p, p_name p)) ?ss)"
    unfolding A by (simp add: group_by_map active_key_def)
  also have "\<dots> = (if ?ss = [] then [] else [((p_id p, p_name p), map (\<lambda>s. (s, p)) ?ss)])"
    by (simp add: group_by_const)
  finally have rows: "[r \<leftarrow> active_subscriptions_by_project db. as_project_id r = p_id p]
      = (if ?ss = [] then [] else [active_row ((p_id p, p_name p), map (\<lambda>s. (s, p)) ?ss)])"
    by simp
  have sum: "sql_sum (map (\<lambda>s. Some (s_amount s)) ?ss) = Some (sum_list (map s_amount ?ss))"
    if "?ss \<noteq> []"
    using sql_sum_Some [OF that, of s_amount] .
  have cnt: "sql_count (map (\<lambda>s. if s_cancel_at_period_end s = Some True then Some (1::int) else None) zs)
      = length [s \<leftarrow> zs. s_cancel_at_period_end s = Some True]" for zs
    by (induction zs) (simp_all add: sql_count_def List.map_filter_simps)
  show ?thesis
    unfolding rows Let_def
    by (simp add: active_row_def Let_def o_def sum cnt)
qed

lemma foldl_plus_sum_list:
  fixes f :: "'a \<Rightarrow> int"
  shows "foldl (\<lambda>sum x. sum + f x) a xs = a + sum_list (map f xs)"
  by (induction xs arbitrary: a) simp_all

lemma fetchStats_mrr:
  "mrr (fetchStats transactions_data customers_data (Some ss)) = sum_list (map s_amount ss)"
proof -
  have "foldl (\<lambda>sum s. sum + s_amount s) a ss = a + sum_list (map s_amount ss)" for a
    by (induction ss arbitrary: a) simp_all
  then show ?thesis by (simp add: fetchStats_def Let_def)
qed

subsection \<open>The trend series\<close>

lemma days_in_order_snoc:
  "days_in_order v (rows @ [x]) =
     (if day_of v x \<in> set (days_in_order v rows) then days_in_order v rows
      else days_in_order v rows @ [day_of v x])"
  by (simp add: days_in_order_def)

lemma set_days_in_order: "set (days_in_order v rows) = day_of v ` set rows"
  by (simp add: days_in_order_def)

lemma distinct_days_in_order: "distinct (days_in_order v rows)"
  by (simp add: days_in_order_def)

lemma map_of_tabulate:
  "map_of (map (\<lambda>d. (d, h d)) ds) k = (if k \<in> set ds then Some (h k) else None)"
  by (induction ds) auto

lemma update_fresh: "map_of al k = None \<Longrightarrow> AList.update k x al = al @ [(k, x)]"
  by (induction al) (auto split: if_splits)

lemma map_entry_tabulate:
  "distinct ds \<Longrightarrow> AList.map_entry k f (map (\<lambda>d. (d, h d)) ds)
     = map (\<lambda>d. (d, if d = k then f (h d) else h d)) ds"
  by (induction ds) auto

lemma bucket_of_fresh: "d \<notin> day_of v ` set rows \<Longrightarrow> bucket_of v rows d = \<lparr>date = d, revenue = 0\<rparr>"
proof -
  assume "d \<notin> day_of v ` set rows"
  then have "[t \<leftarrow> rows. day_of v t = d \<and> t_status t = ''succeeded''] = []"
    by (auto simp: filter_empty_conv)
  then show ?thesis by (simp add: bucket_of_def)
qed

lemma bucket_of_snoc:
  "bucket_of v (rows @ [x]) d =
     (if d = day_of v x \<and> t_status x = ''succeeded''
      then (bucket_of v rows d)\<lparr>revenue := revenue (bucket_of v rows d) + of_int (t_amount x) / 100\<rparr>
      else bucket_of v rows d)"
  by (auto simp: bucket_of_def)

lemma grouped_step:
  assumes "g = map (\<lambda>d. (d, bucket_of v rows d)) (days_in_order v rows)"
  shows "group_day v g x = map (\<lambda>d. (d, bucket_of v (rows @ [x]) d)) (days_in_order v (rows @ [x]))"
proof -
  let ?d = "day_of v x"
  let ?ds = "days_in_order v rows"
  let ?ds' = "days_in_order v (rows @ [x])"
  let ?B = "bucket_of v rows"
  let ?g1 = "if map_of g ?d = None then AList.update ?d \<lparr>date = ?d, revenue = 0\<rparr> g else g"
  have g1: "?g1 = map (\<lambda>d. (d, ?B d)) ?ds'"
  proof (cases "?d \<in> set ?ds")
    case True
    then show ?thesis by (simp add: assms map_of_tabulate days_in_order_snoc)
  next
    case False
    then have none: "map_of g ?d = None" by (simp add: assms map_of_tabulate)
    have "?B ?d = \<lparr>date = ?d, revenue = 0\<rparr>"
      using False by (simp add: bucket_of_fresh set_days_in_order)
    then show ?thesis
      using False none by (simp add: update_fresh days_in_order_snoc assms)
  qed
  show ?thesis
  proof (cases "t_status x = ''succeeded''")
    case True
    have "group_day v g x
        = AList.map_entry ?d (\<lambda>b. b\<lparr>revenue := revenue b + of_int (t_amount x) / 100\<rparr>) ?g1"
      using True by (simp add: group_day_def Let_def)
    also have "\<dots> = map (\<lambda>d. (d, if d = ?d
           then (?B d)\<lparr>revenue := revenue (?B d) + of_int (t_amount x) / 100\<rparr> else ?B d)) ?ds'"
      unfolding g1 by (rule map_entry_tabulate) (rule distinct_days_in_order)
    also have "\<dots> = map (\<lambda>d. (d, bucket_of v (rows @ [x]) d)) ?ds'"
      using True by (simp add: bucket_of_snoc)
    finally show ?thesis .
  next
    case False
    have "group_day v g x = ?g1"
      using False by (simp add: group_day_def Let_def)
    also have "\<dots> = map (\<lambda>d. (d, bucket_of v (rows @ [x]) d)) ?ds'"
      unfolding g1 using False by (simp add: bucket_of_snoc)
    finally show ?thesis .
  qed
qed

lemma grouped_rows:
  "foldl (group_day v) [] rows = map (\<lambda>d. (d, bucket_of v rows d)) (days_in_order v rows)"
proof (induction rows rule: rev_induct)
  case Nil
  show ?case by (simp add: days_in_order_def)
next
  case (snoc x rows)
  then show ?case by (simp add: grouped_step)
qed

lemma fetchChartData_rows:
  assumes "supabase (setDateBack v now 30) = Some rows"
  shows "fetchChartData v now supabase
           = slice_last 14 (map (bucket_of v rows) (days_in_order v rows))"
  using assms by (simp add: fetchChartData_def groupedByDay_of_def grouped_rows o_def)

lemma slice_last_map: "slice_last n (map f xs) = map f (slice_last n xs)"
  by (simp add: slice_last_def drop_map)

lemma length_slice_last: "length (slice_last n xs) \<le> n"
  by (simp add: slice_last_def)

lemma set_slice_last: "set (slice_last n xs) \<subseteq> set xs"
  by (simp add: slice_last_def set_drop_subset)

lemma chart_transactions_member:
  "t \<in> set (chart_transactions db projectId since) \<longleftrightarrow>
     t \<in> set (transactions db) \<and> t_project_id t = projectId
       \<and> (\<exists>c. t_created_at t = Some c \<and> since \<le> c)"
  by (auto simp: chart_transactions_def set_order_by split: option.splits)

subsection \<open>More on the monthly revenue view\<close>

lemma monthly_row_values:
  assumes "distinct (map p_id (projects db))" and "p \<in> set (projects db)"
    and "r \<in> set (monthly_revenue_by_project trunc db)" and "mr_project_id r = p_id p"
  shows "total_revenue r = Some (sum_list (map t_amount
           [t \<leftarrow> transactions db. t_project_id t = p_id p
              \<and> map_option trunc (t_created_at t) = month r \<and> t_status t = ''succeeded'']))"
proof -
  let ?Tp = "[t \<leftarrow> transactions db. t_project_id t = p_id p]"
  let ?mo = "\<lambda>t. map_option trunc (t_created_at t)"
  from assms(3,4) obtain kg where kg: "kg \<in> set (group_by ?mo ?Tp)" and r: "r = project_month_row p kg"
    using monthly_rows_set [OF assms(1,2), of trunc] by blast
  have g: "snd kg = filter (\<lambda>t. ?mo t = fst kg) ?Tp"
    using kg group_by_member [of "fst kg" "snd kg" ?mo ?Tp] by simp
  have ne: "snd kg \<noteq> []"
    using kg group_by_nonempty [of "fst kg" "snd kg" ?mo ?Tp] by simp
  have "total_revenue r
      = Some (sum_list (map (\<lambda>t. if t_status t = ''succeeded'' then t_amount t else 0) (snd kg)))"
    unfolding r project_month_row_simps using ne by (rule sql_sum_Some)
  also have "sum_list (map (\<lambda>t. if t_status t = ''succeeded'' then t_amount t else 0) (snd kg))
      = sum_list (map t_amount (filter (\<lambda>t. t_status t = ''succeeded'') (snd kg)))"
    by (simp add: sum_list_map_filter' [symmetric])
  also have "filter (\<lambda>t. t_status t = ''succeeded'') (snd kg)
      = [t \<leftarrow> transactions db. t_project_id t = p_id p
              \<and> map_option trunc (t_created_at t) = month r \<and> t_status t = ''succeeded'']"
    unfolding g r project_month_row_simps by (simp add: conj_commute conj_left_commute)
  finally show ?thesis .
qed

lemma monthly_rows_empty:
  assumes "distinct (map p_id (projects db))" and "p \<in> set (projects db)"
    and "[t \<leftarrow> transactions db. t_project_id t = p_id p] = []"
  shows "[r \<leftarrow> monthly_revenue_by_project trunc db. mr_project_id r = p_id p] = []"
  using monthly_rows_of_project [OF assms(1,2), of trunc] assms(3)
  by (simp add: group_by_def)

lemma date_bucket_of: "date (bucket_of v rows d) = d"
  by (simp add: bucket_of_def)

lemma bucket_of_no_succeeded:
  "\<forall>t\<in>set rows. day_of v t = d \<longrightarrow> t_status t \<noteq> ''succeeded'' \<Longrightarrow>
     bucket_of v rows d = \<lparr>date = d, revenue = 0\<rparr>"
proof -
  assume "\<forall>t\<in>set rows. day_of v t = d \<longrightarrow> t_status t \<noteq> ''succeeded''"
  then have "[t \<leftarrow> rows. day_of v t = d \<and> t_status t = ''succeeded''] = []"
    by (auto simp: filter_empty_conv)
  then show ?thesis by (simp add: bucket_of_def)
qed

section \<open>The claims\<close>

text \<open>
  C1. Whatever rows the transactions query of \<open>fetchStats\<close> fetches, totalRevenue is
  the sum of \<open>amount\<close> and totalFees the sum of \<open>fee_amount\<close> (a NULL fee adds 0) over
  the fetched rows with status \<open>succeeded\<close> only, netRevenue is their difference, and
  totalTransactions is the number of all fetched rows. For a project whose
  transactions are exactly \<open>{amount=1000, fee_amount=50, status=succeeded}\<close> and
  \<open>{amount=500, fee_amount=0, status=failed}\<close> this gives totalRevenue 1000, totalFees
  50, netRevenue 950 and totalTransactions 2, whatever the other columns of the two
  rows and whatever the customers and subscriptions queries return.
\<close>

theorem fetchStats_sums_succeeded:
  "(let s = fetchStats (Some ts) customers_data subscriptions_data;
        succeeded = [t \<leftarrow> ts. t_status t = ''succeeded'']
    in totalRevenue s = sum_list (map t_amount succeeded)
     \<and> totalFees s
         = sum_list (map (\<lambda>t. case t_fee_amount t of None \<Rightarrow> 0 | Some f \<Rightarrow> f) succeeded)
     \<and> netRevenue s
         = sum_list (map t_amount succeeded)
           - sum_list (map (\<lambda>t. case t_fee_amount t of None \<Rightarrow> 0 | Some f \<Rightarrow> f) succeeded)
     \<and> totalTransactions s = int (length ts))
   \<and> (let s = fetchStats
         (Some [t1\<lparr>t_amount := 1000, t_fee_amount := Some 50, t_status := ''succeeded''\<rparr>,
                t2\<lparr>t_amount := 500, t_fee_amount := Some 0, t_status := ''failed''\<rparr>])
         customers_data subscriptions_data
      in totalRevenue s = 1000 \<and> totalFees s = 50 \<and> netRevenue s = 950
       \<and> totalTransactions s = 2)"
proof
  have fee: "to_number = (\<lambda>v. case v of None \<Rightarrow> 0 | Some f \<Rightarrow> f)"
    by (rule ext) (simp add: to_number_def)
  show "(let s = fetchStats (Some ts) customers_data subscriptions_data;
        succeeded = [t \<leftarrow> ts. t_status t = ''succeeded'']
    in totalRevenue s = sum_list (map t_amount succeeded)
     \<and> totalFees s
         = sum_list (map (\<lambda>t. case t_fee_amount t of None \<Rightarrow> 0 | Some f \<Rightarrow> f) succeeded)
     \<and> netRevenue s
         = sum_list (map t_amount succeeded)
           - sum_list (map (\<lambda>t. case t_fee_amount t of None \<Rightarrow> 0 | Some f \<Rightarrow> f) succeeded)
     \<and> totalTransactions s = int (length ts))"
    by (simp add: fetchStats_def Let_def foldl_plus_sum_list array_length_def fee)
  show "(let s = fetchStats
         (Some [t1\<lparr>t_amount := 1000, t_fee_amount := Some 50, t_status := ''succeeded''\<rparr>,
                t2\<lparr>t_amount := 500, t_fee_amount := Some 0, t_status := ''failed''\<rparr>])
         customers_data subscriptions_data
      in totalRevenue s = 1000 \<and> totalFees s = 50 \<and> netRevenue s = 950
       \<and> totalTransactions s = 2)"
    by (simp add: fetchStats_def to_number_def array_length_def)
qed

theorem fetchStats_sums_succeeded_witness:
  "map t_id (stats_transactions example_db ''p1'') = [''t1'', ''t2'']
   \<and> map t_id [t \<leftarrow> stats_transactions example_db ''p1''. t_status t = ''succeeded''] = [''t1'']
   \<and> (let s = fetchStats (Some (stats_transactions example_db ''p1''))
         (Some (stats_customers example_db ''p1'')) (Some (stats_subscriptions example_db ''p1''))
      in totalRevenue s = 1000 \<and> totalFees s = 50 \<and> netRevenue s = 950
       \<and> totalTransactions s = 2)"
proof -
  have rows: "stats_transactions example_db ''p1'' = [tx1, tx2]"
    by (simp add: stats_transactions_def example_db_def tx1_def tx2_def tx3_def tx4_def tx5_def)
  have succeeded: "[t \<leftarrow> [tx1, tx2]. t_status t = ''succeeded''] = [tx1]"
    by (simp add: tx1_def tx2_def)
  have vals: "t_amount tx1 = 1000" "t_fee_amount tx1 = Some 50" "t_id tx1 = ''t1''"
    "t_id tx2 = ''t2''"
    by (simp_all add: tx1_def tx2_def)
  show ?thesis
    using fetchStats_sums_succeeded [of "stats_transactions example_db ''p1''"
        "Some (stats_customers example_db ''p1'')"
        "Some (stats_subscriptions example_db ''p1'')"]
    unfolding rows Let_def succeeded
    by (simp add: vals)
qed

text \<open>
  C5. Every row of \<open>transactions\<close> that a sequence of writes stores has a non-negative
  amount, a fee that is NULL or non-negative, and a \<open>net_amount\<close> equal to
  \<open>amount - fee_amount\<close> (NULL when the fee is NULL). A write with \<open>amount \<ge> 0\<close> and
  \<open>fee_amount \<ge> 0\<close> in the range of INTEGER stores exactly that difference, and a
  write that supplies anything but DEFAULT for \<open>net_amount\<close> is refused.
\<close>

theorem net_amount_generated:
  "(execute_all [] ws = Inr table \<longrightarrow> (\<forall>r\<in>set table. net_amount_consistent r))
   \<and> (0 \<le> a \<and> 0 \<le> f \<and> integer_range a \<and> integer_range f \<longrightarrow>
        transactions_row others (Val a) (Val f) Default
          = Inr (others\<lparr>t_amount := a, t_fee_amount := Some f, t_net_amount := Some (a - f)\<rparr>))
   \<and> (supplied_net \<noteq> Default \<longrightarrow>
        transactions_row others amount fee_amount supplied_net = Inl generated_always)"
proof (intro conjI impI)
  assume "execute_all [] ws = Inr table"
  then show "\<forall>r\<in>set table. net_amount_consistent r"
    using execute_all_consistent [of "[]" ws table] by simp
next
  assume "0 \<le> a \<and> 0 \<le> f \<and> integer_range a \<and> integer_range f"
  then show "transactions_row others (Val a) (Val f) Default
          = Inr (others\<lparr>t_amount := a, t_fee_amount := Some f, t_net_amount := Some (a - f)\<rparr>)"
    by (simp add: transactions_row_def integer_column_def net_amount_expr_def sql_minus_def
        integer_range_def)
next
  assume "supplied_net \<noteq> Default"
  then show "transactions_row others amount fee_amount supplied_net = Inl generated_always"
    by (simp add: transactions_row_def)
qed

theorem net_amount_generated_witness:
  "execute_all [] example_writes = Inr [tx1, tx2\<lparr>t_fee_amount := Some 20, t_net_amount := Some 480\<rparr>]
   \<and> net_amount_consistent tx1
   \<and> net_amount_consistent (tx2\<lparr>t_fee_amount := Some 20, t_net_amount := Some 480\<rparr>)
   \<and> transactions_row tx1 (Val 1000) (Val 50) Default = Inr tx1
   \<and> transactions_row tx1 (Val 1000) (Val 50) (Val 950) = Inl generated_always"
proof -
  have run: "execute_all [] example_writes
      = Inr [tx1, tx2\<lparr>t_fee_amount := Some 20, t_net_amount := Some 480\<rparr>]"
    by (simp add: example_writes_def transactions_row_def integer_column_def
        net_amount_expr_def sql_minus_def integer_range_def update_row_def kept_def
        update_refused_def assigned_out_of_range_def tx1_def tx2_def)
  have rng: "(0::int) \<le> 1000 \<and> (0::int) \<le> 50 \<and> integer_range 1000 \<and> integer_range 50"
    by (simp add: integer_range_def)
  have upd: "tx1\<lparr>t_amount := 1000, t_fee_amount := Some 50, t_net_amount := Some (1000 - 50)\<rparr> = tx1"
    by (simp add: tx1_def)
  have ne: "Val (950::int) \<noteq> Default" by simp
  show ?thesis
    using net_amount_generated
      [of example_writes "[tx1, tx2\<lparr>t_fee_amount := Some 20, t_net_amount := Some 480\<rparr>]"
        1000 50 tx1 "Val 950" "Val 1000" "Val 50"]
      run rng upd ne
    by simp
qed

text \<open>
  C6, as the code has it. When the query of \<open>fetchTransactions\<close> fails (the await
  rejects, or it resolves with an error), the error is logged to the console, the
  loading indicator is cleared and one request has been sent; the list of
  transactions is left as it was before the fetch.
\<close>

theorem fetchTransactions_failure:
  assumes "failure (supabase (list_query_for projectId (tl_filter s))) = Some e"
  shows "fetchTransactions supabase projectId s =
           s\<lparr>tl_loading := False,
             console_error := console_error s @ [(''Error fetching transactions:'', e)],
             requests := requests s @ [list_query_for projectId (tl_filter s)]\<rparr>"
  using assms
  by (auto simp: fetchTransactions_def failure_def Let_def split: response.splits option.splits)

theorem fetchTransactions_failure_witness:
  "failure (offline (list_query_for ''p1'' (tl_filter loaded_transaction_list)))
     = Some ''TypeError: Failed to fetch''
   \<and> fetchTransactions offline ''p1'' loaded_transaction_list =
       loaded_transaction_list\<lparr>tl_loading := False,
         console_error := console_error loaded_transaction_list
            @ [(''Error fetching transactions:'', ''TypeError: Failed to fetch'')],
         requests := requests loaded_transaction_list
            @ [list_query_for ''p1'' (tl_filter loaded_transaction_list)]\<rparr>"
proof -
  have f: "failure (offline (list_query_for ''p1'' (tl_filter loaded_transaction_list)))
     = Some ''TypeError: Failed to fetch''"
    by (simp add: failure_def offline_def)
  show ?thesis
    using fetchTransactions_failure
        [of offline "''p1''" loaded_transaction_list "''TypeError: Failed to fetch''"] f
    by simp
qed

text \<open>
  C6, as stated, fails: after a fetch that succeeded, a fetch that fails leaves the
  rows of the earlier fetch in the view; the result set is not empty.
\<close>

theorem fetchTransactions_failure_keeps_rows:
  "failure (offline (list_query_for ''p1'' (tl_filter loaded_transaction_list)))
     = Some ''TypeError: Failed to fetch''
   \<and> map (t_id \<circ> fst) (tl_transactions (fetchTransactions offline ''p1'' loaded_transaction_list))
     = [''t2'', ''t1'']"
  by (simp add: failure_def offline_def fetchTransactions_def loaded_transaction_list_def
      initial_transaction_list_def supabase_of_def select_transactions_def list_query_for_def
      example_db_def tx1_def tx2_def tx3_def tx4_def tx5_def order_by_def desc_nulls_first_def
      embed_customer_def Let_def)

text \<open>
  C9. After a fetch that succeeds, the list holds exactly the project's rows whose
  status equals the filter, or all of the project's rows when the filter is
  \<open>all\<close>, in descending order of \<open>created_at\<close> (rows without one first).
\<close>

theorem fetchTransactions_filtered_sorted:
  "(let rows = map fst (tl_transactions (fetchTransactions (supabase_of db) projectId s)) in
     (tl_filter s \<noteq> ''all'' \<longrightarrow>
        mset rows = mset [t \<leftarrow> transactions db. t_project_id t = projectId \<and> t_status t = tl_filter s])
     \<and> (tl_filter s = ''all'' \<longrightarrow>
        mset rows = mset [t \<leftarrow> transactions db. t_project_id t = projectId])
     \<and> sorted_wrt (\<lambda>a b. desc_nulls_first (t_created_at a) (t_created_at b)) rows)"
proof -
  let ?le = "\<lambda>a b. desc_nulls_first (t_created_at a) (t_created_at b)"
  have sorted: "sorted_wrt ?le (order_by ?le xs)" for xs
  proof (rule sorted_order_by)
    show "?le x y \<or> ?le y x" for x y by (rule desc_nulls_first_total)
    show "?le x y \<Longrightarrow> ?le y z \<Longrightarrow> ?le x z" for x y z by (rule desc_nulls_first_trans)
  qed
  show ?thesis
    unfolding Let_def fetchTransactions_success map_fst_select_transactions
    by (simp add: mset_order_by sorted list_query_for_def)
qed

theorem fetchTransactions_filtered_sorted_witness:
  "tl_filter (initial_transaction_list\<lparr>tl_filter := ''failed''\<rparr>) \<noteq> ''all''
   \<and> tl_filter initial_transaction_list = ''all''
   \<and> mset (map fst (tl_transactions (fetchTransactions (supabase_of example_db) ''p1''
         (initial_transaction_list\<lparr>tl_filter := ''failed''\<rparr>)))) = mset [tx2]
   \<and> mset (map fst (tl_transactions
         (fetchTransactions (supabase_of example_db) ''p1'' initial_transaction_list)))
       = mset [tx1, tx2]
   \<and> sorted_wrt (\<lambda>a b. desc_nulls_first (t_created_at a) (t_created_at b))
       (map fst (tl_transactions
         (fetchTransactions (supabase_of example_db) ''p1'' initial_transaction_list)))"
proof -
  have all: "[t \<leftarrow> transactions example_db. t_project_id t = ''p1''] = [tx1, tx2]"
    by (simp add: example_db_def tx1_def tx2_def tx3_def tx4_def tx5_def)
  have failed: "[t \<leftarrow> transactions example_db. t_project_id t = ''p1''
        \<and> t_status t = tl_filter (initial_transaction_list\<lparr>tl_filter := ''failed''\<rparr>)] = [tx2]"
    by (simp add: example_db_def tx1_def tx2_def tx3_def tx4_def tx5_def)
  have f1: "tl_filter (initial_transaction_list\<lparr>tl_filter := ''failed''\<rparr>) \<noteq> ''all''"
    by simp
  have f2: "tl_filter initial_transaction_list = ''all''"
    by (simp add: initial_transaction_list_def)
  have a: "mset (map fst (tl_transactions (fetchTransactions (supabase_of example_db) ''p1''
         (initial_transaction_list\<lparr>tl_filter := ''failed''\<rparr>))))
      = mset [t \<leftarrow> transactions example_db. t_project_id t = ''p1''
        \<and> t_status t = tl_filter (initial_transaction_list\<lparr>tl_filter := ''failed''\<rparr>)]"
    using fetchTransactions_filtered_sorted
        [of example_db "''p1''" "initial_transaction_list\<lparr>tl_filter := ''failed''\<rparr>"] f1
    unfolding Let_def by blast
  have b: "mset (map fst (tl_transactions
         (fetchTransactions (supabase_of example_db) ''p1'' initial_transaction_list)))
       = mset [t \<leftarrow> transactions example_db. t_project_id t = ''p1'']
     \<and> sorted_wrt (\<lambda>a b. desc_nulls_first (t_created_at a) (t_created_at b))
       (map fst (tl_transactions
         (fetchTransactions (supabase_of example_db) ''p1'' initial_transaction_list)))"
    using fetchTransactions_filtered_sorted [of example_db "''p1''" initial_transaction_list] f2
    unfolding Let_def by blast
  show ?thesis
    using a [unfolded failed] b [unfolded all] f1 f2 by blast
qed

text \<open>
  C2. For every project of the \<open>projects\<close> table (whose ids are distinct, \<open>id\<close> being
  its primary key), the \<open>total_revenue\<close> of each of its rows in
  \<open>monthly_revenue_by_project\<close> is not NULL, and these values sum to the sum of
  \<open>amount\<close> over the project's transactions with status \<open>succeeded\<close>.
\<close>

theorem monthly_revenue_sums_to_succeeded:
  assumes "distinct (map p_id (projects db))" and "p \<in> set (projects db)"
  shows "(let rows = [r \<leftarrow> monthly_revenue_by_project trunc db. mr_project_id r = p_id p] in
      None \<notin> set (map total_revenue rows)
      \<and> sum_list (List.map_filter total_revenue rows)
        = sum_list (map t_amount
            [t \<leftarrow> transactions db. t_project_id t = p_id p \<and> t_status t = ''succeeded'']))"
proof -
  have "total_revenue r \<noteq> None"
    if "r \<in> set (monthly_revenue_by_project trunc db)" and "mr_project_id r = p_id p" for r
    using monthly_row_values [OF assms that] by simp
  then have "None \<notin> set (map total_revenue
      [r \<leftarrow> monthly_revenue_by_project trunc db. mr_project_id r = p_id p])"
    by (auto simp: image_iff) (metis option.distinct(1))
  then show ?thesis
    using monthly_total_revenue_sum [OF assms, of trunc] by (simp add: Let_def)
qed

theorem monthly_revenue_sums_to_succeeded_witness:
  "distinct (map p_id (projects example_db)) \<and> lab \<in> set (projects example_db)
   \<and> map total_revenue [r \<leftarrow> monthly_revenue_by_project date_trunc_month_utc example_db.
        mr_project_id r = p_id lab] = [Some 350, Some 0]
   \<and> sum_list (List.map_filter total_revenue
        [r \<leftarrow> monthly_revenue_by_project date_trunc_month_utc example_db.
           mr_project_id r = p_id lab]) = 350"
proof -
  have d: "distinct (map p_id (projects example_db))" by code_simp
  have m: "lab \<in> set (projects example_db)" by code_simp
  have v: "map total_revenue [r \<leftarrow> monthly_revenue_by_project date_trunc_month_utc example_db.
        mr_project_id r = p_id lab] = [Some 350, Some 0]" by code_simp
  have s: "sum_list (map t_amount
      [t \<leftarrow> transactions example_db. t_project_id t = p_id lab \<and> t_status t = ''succeeded''])
      = 350" by code_simp
  show ?thesis
    using monthly_revenue_sums_to_succeeded [OF d m, of date_trunc_month_utc] d m v s
    by (simp add: Let_def)
qed

text \<open>
  C8. For every project of the \<open>projects\<close> table (ids distinct) and every month value
  \<open>m\<close> (NULL for rows without \<open>created_at\<close>), \<open>monthly_revenue_by_project\<close> has a row
  for the project and \<open>m\<close> if and only if the project has a transaction, of any status,
  whose month is \<open>m\<close>. A row whose month has no succeeded transaction has
  \<open>total_revenue\<close>, \<open>total_fees\<close> and \<open>net_revenue\<close> all 0, and a project without
  transactions has no row.
\<close>

theorem monthly_row_iff_transaction:
  assumes "distinct (map p_id (projects db))" and "p \<in> set (projects db)"
  shows "((\<exists>r\<in>set (monthly_revenue_by_project trunc db). mr_project_id r = p_id p \<and> month r = m)
           \<longleftrightarrow> (\<exists>t\<in>set (transactions db). t_project_id t = p_id p
                  \<and> map_option trunc (t_created_at t) = m))
    \<and> (\<forall>r\<in>set (monthly_revenue_by_project trunc db).
          mr_project_id r = p_id p
          \<and> (\<forall>t\<in>set (transactions db). t_project_id t = p_id p
                \<and> map_option trunc (t_created_at t) = month r \<longrightarrow> t_status t \<noteq> ''succeeded'')
          \<longrightarrow> total_revenue r = Some 0 \<and> total_fees r = Some 0 \<and> net_revenue r = Some 0)
    \<and> ([t \<leftarrow> transactions db. t_project_id t = p_id p] = []
          \<longrightarrow> [r \<leftarrow> monthly_revenue_by_project trunc db. mr_project_id r = p_id p] = [])"
proof -
  have exists: "(\<exists>r\<in>set (monthly_revenue_by_project trunc db). mr_project_id r = p_id p \<and> month r = m)
           \<longleftrightarrow> (\<exists>t\<in>set (transactions db). t_project_id t = p_id p
                  \<and> map_option trunc (t_created_at t) = m)"
    by (rule monthly_row_exists [OF assms])
  have zero: "total_revenue r = Some 0 \<and> total_fees r = Some 0 \<and> net_revenue r = Some 0"
    if "r \<in> set (monthly_revenue_by_project trunc db)"
      and "mr_project_id r = p_id p
          \<and> (\<forall>t\<in>set (transactions db). t_project_id t = p_id p
                \<and> map_option trunc (t_created_at t) = month r \<longrightarrow> t_status t \<noteq> ''succeeded'')"
    for r
    using monthly_row_zero [OF assms that(1)] that(2) by blast
  have none: "[r \<leftarrow> monthly_revenue_by_project trunc db. mr_project_id r = p_id p] = []"
    if "[t \<leftarrow> transactions db. t_project_id t = p_id p] = []"
    using that by (rule monthly_rows_empty [OF assms])
  show ?thesis
    using exists zero none by blast
qed

theorem monthly_row_iff_transaction_witness:
  "distinct (map p_id (projects example_db)) \<and> lab \<in> set (projects example_db)
   \<and> blog \<in> set (projects example_db)
   \<and> lab_february \<in> set (monthly_revenue_by_project date_trunc_month_utc example_db)
   \<and> mr_project_id lab_february = p_id lab
   \<and> total_revenue lab_february = Some 0 \<and> total_fees lab_february = Some 0
   \<and> net_revenue lab_february = Some 0
   \<and> (\<exists>t\<in>set (transactions example_db). t_project_id t = p_id lab
         \<and> map_option date_trunc_month_utc (t_created_at t) = Some (2025, 2, 1))
   \<and> [t \<leftarrow> transactions example_db. t_project_id t = p_id blog] = []
   \<and> [r \<leftarrow> monthly_revenue_by_project date_trunc_month_utc example_db.
         mr_project_id r = p_id blog] = []"
proof -
  have d: "distinct (map p_id (projects example_db))" by code_simp
  have l: "lab \<in> set (projects example_db)" by code_simp
  have b: "blog \<in> set (projects example_db)" by code_simp
  have r: "lab_february \<in> set (monthly_revenue_by_project date_trunc_month_utc example_db)"
    by code_simp
  have i: "mr_project_id lab_february = p_id lab" by code_simp
  have mo: "month lab_february = Some (2025, 2, 1)" by (simp add: lab_february_def)
  have ns: "\<forall>t\<in>set (transactions example_db). t_project_id t = p_id lab
      \<and> map_option date_trunc_month_utc (t_created_at t) = month lab_february
      \<longrightarrow> t_status t \<noteq> ''succeeded''"
    by code_simp
  have e: "[t \<leftarrow> transactions example_db. t_project_id t = p_id blog] = []" by code_simp
  note lab_thm = monthly_row_iff_transaction [OF d l, of date_trunc_month_utc "Some (2025, 2, 1)"]
  note blog_thm = monthly_row_iff_transaction [OF d b, of date_trunc_month_utc None]
  have ex: "\<exists>t\<in>set (transactions example_db). t_project_id t = p_id lab
         \<and> map_option date_trunc_month_utc (t_created_at t) = Some (2025, 2, 1)"
    using lab_thm r i mo by blast
  have z: "total_revenue lab_february = Some 0 \<and> total_fees lab_february = Some 0
   \<and> net_revenue lab_february = Some 0"
    using lab_thm r i ns by blast
  have n: "[r \<leftarrow> monthly_revenue_by_project date_trunc_month_utc example_db.
         mr_project_id r = p_id blog] = []"
    using blog_thm e by blast
  show ?thesis using d l b r i z ex e n by blast
qed

text \<open>
  C10. In a row of \<open>monthly_revenue_by_project\<close> for a project of the \<open>projects\<close> table
  (ids distinct), \<open>paying_customers\<close> is the number of distinct customer ids that are
  not NULL among the project's succeeded transactions of type \<open>payment\<close> in that
  month, while \<open>total_revenue\<close> is the sum of \<open>amount\<close> over all its succeeded
  transactions of the month, linked to a customer or not. In the example data the
  one row of Shop has \<open>total_revenue\<close> 1000 and \<open>paying_customers\<close> 0.
\<close>

theorem paying_customers_linked_only:
  assumes "distinct (map p_id (projects db))" and "p \<in> set (projects db)"
    and "r \<in> set (monthly_revenue_by_project trunc db)" and "mr_project_id r = p_id p"
  shows "paying_customers r =
       card {c. \<exists>t\<in>set (transactions db). t_project_id t = p_id p
            \<and> map_option trunc (t_created_at t) = month r
            \<and> t_status t = ''succeeded'' \<and> t_type t = ''payment'' \<and> t_customer_id t = Some c}
    \<and> total_revenue r = Some (sum_list (map t_amount
           [t \<leftarrow> transactions db. t_project_id t = p_id p
              \<and> map_option trunc (t_created_at t) = month r \<and> t_status t = ''succeeded'']))
    \<and> map (\<lambda>r. (total_revenue r, paying_customers r))
         [r \<leftarrow> monthly_revenue_by_project date_trunc_month_utc example_db.
            mr_project_id r = ''p1''] = [(Some 1000, 0)]"
proof (intro conjI)
  show "paying_customers r =
       card {c. \<exists>t\<in>set (transactions db). t_project_id t = p_id p
            \<and> map_option trunc (t_created_at t) = month r
            \<and> t_status t = ''succeeded'' \<and> t_type t = ''payment'' \<and> t_customer_id t = Some c}"
    by (rule monthly_paying_customers [OF assms])
  show "total_revenue r = Some (sum_list (map t_amount
           [t \<leftarrow> transactions db. t_project_id t = p_id p
              \<and> map_option trunc (t_created_at t) = month r \<and> t_status t = ''succeeded'']))"
    by (rule monthly_row_values [OF assms])
  show "map (\<lambda>r. (total_revenue r, paying_customers r))
         [r \<leftarrow> monthly_revenue_by_project date_trunc_month_utc example_db.
            mr_project_id r = ''p1''] = [(Some 1000, 0)]"
    by code_simp
qed

theorem paying_customers_linked_only_witness:
  "distinct (map p_id (projects example_db)) \<and> shop \<in> set (projects example_db)
   \<and> shop_january \<in> set (monthly_revenue_by_project date_trunc_month_utc example_db)
   \<and> mr_project_id shop_january = p_id shop
   \<and> map (\<lambda>t. (t_status t, t_type t, t_customer_id t, t_amount t))
       [t \<leftarrow> transactions example_db. t_project_id t = p_id shop
          \<and> map_option date_trunc_month_utc (t_created_at t) = month shop_january]
     = [(''succeeded'', ''payment'', None, 1000), (''failed'', ''payment'', None, 500)]
   \<and> card {c. \<exists>t\<in>set (transactions example_db). t_project_id t = p_id shop
            \<and> map_option date_trunc_month_utc (t_created_at t) = month shop_january
            \<and> t_status t = ''succeeded'' \<and> t_type t = ''payment'' \<and> t_customer_id t = Some c}
     = 0
   \<and> total_revenue shop_january = Some 1000"
proof -
  have d: "distinct (map p_id (projects example_db))" by code_simp
  have s: "shop \<in> set (projects example_db)" by code_simp
  have r: "shop_january \<in> set (monthly_revenue_by_project date_trunc_month_utc example_db)"
    by code_simp
  have i: "mr_project_id shop_january = p_id shop" by code_simp
  have g: "map (\<lambda>t. (t_status t, t_type t, t_customer_id t, t_amount t))
       [t \<leftarrow> transactions example_db. t_project_id t = p_id shop
          \<and> map_option date_trunc_month_utc (t_created_at t) = month shop_january]
     = [(''succeeded'', ''payment'', None, 1000), (''failed'', ''payment'', None, 500)]"
    by code_simp
  have p0: "paying_customers shop_january = 0" and t0: "total_revenue shop_january = Some 1000"
    by (simp_all add: shop_january_def)
  show ?thesis
    using paying_customers_linked_only [OF d s r i] d s r i g p0 t0 by simp
qed

text \<open>
  C7, as the code has it. For every project of the \<open>projects\<close> table (ids distinct),
  the \<open>mrr\<close> that \<open>fetchStats\<close> computes from a subscriptions query that succeeds is
  the sum of \<open>amount\<close> over the project's subscriptions with status \<open>active\<close>. The
  view \<open>active_subscriptions_by_project\<close> has exactly one row for a project with at
  least one active subscription, and its \<open>mrr\<close> is that sum; it has no row for a
  project without active subscriptions.
\<close>

theorem mrr_view_and_client:
  assumes "distinct (map p_id (projects db))" and "p \<in> set (projects db)"
  shows "(let active = [s \<leftarrow> subscriptions db. s_project_id s = p_id p \<and> s_status s = ''active''];
              total = sum_list (map s_amount active)
          in mrr (fetchStats transactions_data customers_data
                   (Some (stats_subscriptions db (p_id p)))) = total
           \<and> map as_mrr [r \<leftarrow> active_subscriptions_by_project db. as_project_id r = p_id p]
               = (if active = [] then [] else [Some total]))"
  unfolding active_rows_of_project [OF assms] fetchStats_mrr
  by (simp add: Let_def stats_subscriptions_def)

theorem mrr_view_and_client_witness:
  "distinct (map p_id (projects example_db)) \<and> shop \<in> set (projects example_db)
   \<and> map s_amount [s \<leftarrow> subscriptions example_db. s_project_id s = p_id shop
        \<and> s_status s = ''active''] = [2000, 500]
   \<and> mrr (fetchStats None None (Some (stats_subscriptions example_db (p_id shop)))) = 2500
   \<and> map as_mrr [r \<leftarrow> active_subscriptions_by_project example_db. as_project_id r = p_id shop]
       = [Some 2500]"
proof -
  have d: "distinct (map p_id (projects example_db))" by code_simp
  have s: "shop \<in> set (projects example_db)" by code_simp
  have a: "[s \<leftarrow> subscriptions example_db. s_project_id s = p_id shop
        \<and> s_status s = ''active''] = [sub1, sub3]" by code_simp
  have v: "map s_amount [sub1, sub3] = [2000, 500]" by code_simp
  show ?thesis
    using mrr_view_and_client [OF d s, of None None] d s
    unfolding a Let_def v by (simp add: sub1_def sub3_def)
qed

text \<open>
  C7, as stated, fails for a project without active subscriptions: the sum is 0
  and the client computes 0, but the view reports no row, hence no MRR.
\<close>

theorem mrr_view_has_no_row_without_active_subscription:
  "distinct (map p_id (projects example_db)) \<and> blog \<in> set (projects example_db)
   \<and> sum_list (map s_amount [s \<leftarrow> subscriptions example_db. s_project_id s = p_id blog
        \<and> s_status s = ''active'']) = 0
   \<and> mrr (fetchStats None None (Some (stats_subscriptions example_db (p_id blog)))) = 0
   \<and> map as_mrr [r \<leftarrow> active_subscriptions_by_project example_db. as_project_id r = p_id blog]
       = []"
  by code_simp

text \<open>
  C3, as the code has it. The trend series of \<open>fetchChartData\<close> has at most 14
  buckets, and the date of every bucket is the viewer's local date of a transaction
  of the project whose \<open>created_at\<close> is not before thirty days before the fetch. The
  query bounds \<open>created_at\<close> from below only.
\<close>

theorem trend_series_bounded:
  "(let chart = fetchChartData v now (\<lambda>since. Some (chart_transactions db projectId since)) in
     length chart \<le> 14
     \<and> (\<forall>b\<in>set chart. \<exists>t\<in>set (transactions db). t_project_id t = projectId
           \<and> (\<exists>c. t_created_at t = Some c \<and> setDateBack v now 30 \<le> c
                \<and> toLocaleDateString v c = date b)))"
proof -
  let ?since = "setDateBack v now 30"
  let ?rows = "chart_transactions db projectId ?since"
  let ?chart = "fetchChartData v now (\<lambda>since. Some (chart_transactions db projectId since))"
  have chart: "?chart = map (bucket_of v ?rows) (slice_last 14 (days_in_order v ?rows))"
    by (simp add: fetchChartData_rows slice_last_map)
  have len: "length ?chart \<le> 14"
    unfolding chart by (simp add: length_slice_last)
  have src: "\<exists>t\<in>set (transactions db). t_project_id t = projectId
           \<and> (\<exists>c. t_created_at t = Some c \<and> ?since \<le> c \<and> toLocaleDateString v c = date b)"
    if "b \<in> set ?chart" for b
  proof -
    from that obtain d where d: "d \<in> set (slice_last 14 (days_in_order v ?rows))"
      and b: "b = bucket_of v ?rows d"
      unfolding chart by auto
    from d have "d \<in> day_of v ` set ?rows"
      using set_slice_last [of 14 "days_in_order v ?rows"] by (auto simp: set_days_in_order)
    then obtain t where t: "t \<in> set ?rows" and dt: "day_of v t = d" by auto
    from t obtain c where "t \<in> set (transactions db)" "t_project_id t = projectId"
      "t_created_at t = Some c" "?since \<le> c"
      by (auto simp: chart_transactions_member)
    moreover have "toLocaleDateString v c = date b"
      using dt \<open>t_created_at t = Some c\<close> b by (simp add: day_of_def new_Date_def date_bucket_of)
    ultimately show ?thesis by blast
  qed
  show ?thesis
    unfolding Let_def using len src by blast
qed

theorem trend_series_bounded_witness:
  "length (fetchChartData utc_viewer busy_now
       (\<lambda>since. Some (chart_transactions busy_db ''p1'' since))) \<le> 14
   \<and> \<lparr>date = ''1/6/2025'', revenue = 0\<rparr> \<in> set (fetchChartData utc_viewer busy_now
       (\<lambda>since. Some (chart_transactions busy_db ''p1'' since)))
   \<and> (\<exists>t\<in>set (transactions busy_db). t_project_id t = ''p1''
        \<and> (\<exists>c. t_created_at t = Some c \<and> setDateBack utc_viewer busy_now 30 \<le> c
             \<and> toLocaleDateString utc_viewer c = ''1/6/2025''))"
proof -
  have m: "\<lparr>date = ''1/6/2025'', revenue = 0\<rparr> \<in> set (fetchChartData utc_viewer busy_now
       (\<lambda>since. Some (chart_transactions busy_db ''p1'' since)))"
    by code_simp
  have d: "date \<lparr>date = ''1/6/2025'', revenue = 0\<rparr> = ''1/6/2025''" by simp
  show ?thesis
    using trend_series_bounded [of utc_viewer busy_now busy_db "''p1''", unfolded Let_def] m d
    by metis
qed

text \<open>
  C3, as stated, fails: the window is open at its upper end. A row that the
  database stamps after the viewer's clock reading (here 40 seconds later, across
  midnight) is fetched, and its bucket is dated after the day of the fetch.
\<close>

theorem trend_series_has_no_upper_bound:
  "fetchChartData utc_viewer late_now (\<lambda>since. Some (chart_transactions late_db ''p1'' since))
     = [\<lparr>date = ''2/1/2025'', revenue = 10\<rparr>]
   \<and> map t_created_at (transactions late_db) = [Some 1738368010000]
   \<and> \<not> in_trailing_window utc_viewer late_now 1738368010000
   \<and> toLocaleDateString utc_viewer late_now = ''1/31/2025''"
  by code_simp

text \<open>
  C4, as the code has it. The buckets of the trend series are the last 14 of the
  distinct days of the fetched rows, in the order of their first row. Such a day
  without a succeeded transaction has the bucket \<open>{date, revenue: 0}\<close>; every bucket
  is the day of a fetched row, so a day without transactions has no bucket.
\<close>

theorem trend_series_sparse:
  assumes "supabase (setDateBack v now 30) = Some rows"
  shows "(let chart = fetchChartData v now supabase;
              kept = slice_last 14 (days_in_order v rows)
          in map date chart = kept
           \<and> (\<forall>d\<in>set kept. (\<forall>t\<in>set rows. day_of v t = d \<longrightarrow> t_status t \<noteq> ''succeeded'')
                 \<longrightarrow> \<lparr>date = d, revenue = 0\<rparr> \<in> set chart)
           \<and> (\<forall>b\<in>set chart. \<exists>t\<in>set rows. day_of v t = date b))"
proof -
  let ?kept = "slice_last 14 (days_in_order v rows)"
  have chart: "fetchChartData v now supabase = map (bucket_of v rows) ?kept"
    using fetchChartData_rows [of supabase v now rows] assms by (simp add: slice_last_map)
  have dates: "map date (map (bucket_of v rows) ?kept) = ?kept"
    by (simp add: o_def date_bucket_of)
  have zero: "\<lparr>date = d, revenue = 0\<rparr> \<in> set (map (bucket_of v rows) ?kept)"
    if "d \<in> set ?kept" and "\<forall>t\<in>set rows. day_of v t = d \<longrightarrow> t_status t \<noteq> ''succeeded''" for d
    using that(1) bucket_of_no_succeeded [OF that(2)] by (metis image_eqI set_map)
  have src: "\<exists>t\<in>set rows. day_of v t = date b" if "b \<in> set (map (bucket_of v rows) ?kept)" for b
  proof -
    from that obtain d where d: "d \<in> set ?kept" and b: "b = bucket_of v rows d" by auto
    from d have "d \<in> day_of v ` set rows"
      using set_slice_last [of 14 "days_in_order v rows"] by (auto simp: set_days_in_order)
    then show ?thesis using b by (auto simp: date_bucket_of)
  qed
  show ?thesis
    unfolding Let_def chart using dates zero src by blast
qed

theorem trend_series_sparse_witness:
  "map (day_of utc_viewer)
       (chart_transactions example_db ''p1'' (setDateBack utc_viewer busy_now 30))
     = [''1/1/2025'', ''1/15/2025'']
   \<and> map t_status (chart_transactions example_db ''p1'' (setDateBack utc_viewer busy_now 30))
     = [''succeeded'', ''failed'']
   \<and> map date (fetchChartData utc_viewer busy_now
        (\<lambda>since. Some (chart_transactions example_db ''p1'' since)))
     = [''1/1/2025'', ''1/15/2025'']
   \<and> \<lparr>date = ''1/15/2025'', revenue = 0\<rparr> \<in> set (fetchChartData utc_viewer busy_now
        (\<lambda>since. Some (chart_transactions example_db ''p1'' since)))"
proof -
  let ?rows = "chart_transactions example_db ''p1'' (setDateBack utc_viewer busy_now 30)"
  have r: "map (day_of utc_viewer) ?rows = [''1/1/2025'', ''1/15/2025'']" by code_simp
  have st: "map t_status ?rows = [''succeeded'', ''failed'']" by code_simp
  have k: "slice_last 14 (days_in_order utc_viewer ?rows) = [''1/1/2025'', ''1/15/2025'']"
    by code_simp
  have ns: "\<forall>t\<in>set ?rows. day_of utc_viewer t = ''1/15/2025'' \<longrightarrow> t_status t \<noteq> ''succeeded''"
    by code_simp
  show ?thesis
    using trend_series_sparse
        [of "\<lambda>since. Some (chart_transactions example_db ''p1'' since)" utc_viewer busy_now ?rows]
      r st k ns
    by (simp add: Let_def)
qed

text \<open>
  C4, as stated, fails: with failed transactions on fifteen days of the window, the
  first day (2025-01-05) has a transaction, none succeeded, and no bucket, since
  \<open>slice(-14)\<close> keeps the last fourteen days only.
\<close>

theorem trend_series_drops_older_days:
  "map (day_of utc_viewer)
       (chart_transactions busy_db ''p1'' (setDateBack utc_viewer busy_now 30))
     = [''1/5/2025'', ''1/6/2025'', ''1/7/2025'', ''1/8/2025'', ''1/9/2025'', ''1/10/2025'',
        ''1/11/2025'', ''1/12/2025'', ''1/13/2025'', ''1/14/2025'', ''1/15/2025'',
        ''1/16/2025'', ''1/17/2025'', ''1/18/2025'', ''1/19/2025'']
   \<and> map t_status (chart_transactions busy_db ''p1'' (setDateBack utc_viewer busy_now 30))
     = replicate 15 ''failed''
   \<and> in_trailing_window utc_viewer busy_now 1736067600000
   \<and> toLocaleDateString utc_viewer 1736067600000 = ''1/5/2025''
   \<and> map date (fetchChartData utc_viewer busy_now
        (\<lambda>since. Some (chart_transactions busy_db ''p1'' since)))
     = [''1/6/2025'', ''1/7/2025'', ''1/8/2025'', ''1/9/2025'', ''1/10/2025'', ''1/11/2025'',
        ''1/12/2025'', ''1/13/2025'', ''1/14/2025'', ''1/15/2025'', ''1/16/2025'',
        ''1/17/2025'', ''1/18/2025'', ''1/19/2025'']"
  by code_simp

end
